theory Spec2Isabelle
  imports Complex_Main "HOL-Library.AList"
begin

section \<open>JavaScript values\<close>

text \<open>
  The server of \<open>index.js\<close> keeps two maps, \<open>peers\<close> and \<open>websocketClients\<close>, and
  handles HTTP requests, WebSocket events and a periodic sweep, each handler running to
  its end before the next starts.  The model passes the state through each handler;
  \<open>Date.now()\<close> is the argument \<open>now\<close>.  The middleware in front of the routes and the
  status, health and documentation routes are not part of it.

  Request bodies and WebSocket frames are the values that \<open>JSON.parse\<close> gives.  A field
  that is absent reads as \<open>undefined\<close>.  A number is an integer that a double holds
  exactly, or the negative zero, or one of the two infinities (the value of a literal
  such as \<open>1e999\<close>); a string is a list of code units below 256.
\<close>

datatype jsval =
    JUndefined
  | JNull
  | JBool bool
  | JNum int
  | JNegZero
  | JInfinity
  | JNegInfinity
  | JStr string
  | JArr "jsval list"
  | JObj "(string \<times> jsval) list"

text \<open>A number as the result of a conversion or of arithmetic.\<close>

datatype jsnum = NaN | Fin rat | PosInf | NegInf

text \<open>The exceptions that the handlers meet.\<close>

datatype js_error = TypeError | SyntaxError

text \<open>\<open>!v\<close> is \<open>\<not> truthy v\<close>; \<open>a || b\<close> is \<open>a\<close> when \<open>truthy a\<close>.\<close>

fun truthy :: "jsval \<Rightarrow> bool" where
  "truthy JUndefined = False"
| "truthy JNull = False"
| "truthy (JBool b) = b"
| "truthy (JNum n) = (n \<noteq> 0)"
| "truthy JNegZero = False"
| "truthy JInfinity = True"
| "truthy JNegInfinity = True"
| "truthy (JStr s) = (s \<noteq> [])"
| "truthy (JArr xs) = True"
| "truthy (JObj kvs) = True"

text \<open>Arrays and objects are references; the other values are compared by value.\<close>

fun is_ref :: "jsval \<Rightarrow> bool" where
  "is_ref (JArr xs) = True"
| "is_ref (JObj kvs) = True"
| "is_ref v = False"

text \<open>The two zeros are equal, and are one key of a \<open>Map\<close>.\<close>

fun plus_zero :: "jsval \<Rightarrow> jsval" where
  "plus_zero JNegZero = JNum 0"
| "plus_zero v = v"

text \<open>
  \<open>a === b\<close>, and the comparison of \<open>includes\<close>, between a stored value and a value of
  another request: two arrays or objects that were parsed separately are never the same.
\<close>

definition strict_eq :: "jsval \<Rightarrow> jsval \<Rightarrow> bool" where
  "strict_eq a b = (\<not> is_ref a \<and> plus_zero a = plus_zero b)"

subsection \<open>Characters and digits\<close>

text \<open>The code unit of a character, for the ranges \<open>[0-9]\<close>, \<open>[a-f]\<close> and so on.\<close>

definition code :: "char \<Rightarrow> nat" where
  "code c = of_char c"

definition in_range :: "char \<Rightarrow> char \<Rightarrow> char \<Rightarrow> bool" where
  "in_range lo hi c = (code lo \<le> code c \<and> code c \<le> code hi)"

definition is_digit :: "char \<Rightarrow> bool" where
  "is_digit c = in_range (CHR ''0'') (CHR ''9'') c"

definition digit_val :: "char \<Rightarrow> nat" where
  "digit_val c = code c - 48"

definition is_hex_digit :: "char \<Rightarrow> bool" where
  "is_hex_digit c =
     (is_digit c \<or> in_range (CHR ''a'') (CHR ''f'') c \<or> in_range (CHR ''A'') (CHR ''F'') c)"

definition hex_val :: "char \<Rightarrow> nat" where
  "hex_val c =
     (if is_digit c then code c - 48
      else if in_range (CHR ''a'') (CHR ''f'') c then code c - 87
      else code c - 55)"

definition is_oct_digit :: "char \<Rightarrow> bool" where
  "is_oct_digit c = in_range (CHR ''0'') (CHR ''7'') c"

definition is_bin_digit :: "char \<Rightarrow> bool" where
  "is_bin_digit c = (c = CHR ''0'' \<or> c = CHR ''1'')"

text \<open>
  The white space and line terminators among the code units below 256: tab, line feed,
  vertical tab, form feed, carriage return, space and the no-break space.
\<close>

definition is_ws :: "char \<Rightarrow> bool" where
  "is_ws c = (c = CHR 0x20 \<or> c = CHR 0x09 \<or> c = CHR 0x0A \<or> c = CHR 0x0B
              \<or> c = CHR 0x0C \<or> c = CHR 0x0D \<or> c = CHR 0xA0)"

definition radix_val :: "nat \<Rightarrow> (char \<Rightarrow> nat) \<Rightarrow> string \<Rightarrow> nat" where
  "radix_val b dv s = foldl (\<lambda>a c. b * a + dv c) 0 s"

definition dec_val :: "string \<Rightarrow> nat" where
  "dec_val s = radix_val 10 digit_val s"

subsection \<open>Rounding to a double\<close>

text \<open>The number of binary digits of a natural number.\<close>

fun bits :: "nat \<Rightarrow> nat" where
  "bits n = (if n = 0 then 0 else Suc (bits (n div 2)))"

definition pow2 :: "int \<Rightarrow> rat" where
  "pow2 e = (if 0 \<le> e then 2 ^ nat e else 1 / 2 ^ nat (- e))"

text \<open>For \<open>x > 0\<close>, the exponent \<open>e\<close> with \<open>2^e \<le> x < 2^(e+1)\<close>.\<close>

definition binary_exponent :: "rat \<Rightarrow> int" where
  "binary_exponent x =
     (if 1 \<le> x then int (bits (nat \<lfloor>x\<rfloor>)) - 1
      else - int (bits (nat (\<lceil>1 / x\<rceil> - 1))))"

definition round_half_even :: "rat \<Rightarrow> int" where
  "round_half_even y =
     (let n = \<lfloor>y\<rfloor>; f = y - of_int n in
      if f < 1 / 2 then n else if 1 / 2 < f then n + 1 else if even n then n else n + 1)"

text \<open>
  The double nearest to a positive rational, ties to the even significand: 53 binary
  digits from the exponent of \<open>x\<close>, the exponent not below \<open>-1022\<close>, and infinity from
  \<open>2^1024\<close> on.
\<close>

definition round_double_pos :: "rat \<Rightarrow> jsnum" where
  "round_double_pos x =
     (let e = max (binary_exponent x) (- 1022);
          ulp = pow2 (e - 52);
          v = of_int (round_half_even (x / ulp)) * ulp in
      if pow2 1024 \<le> v then PosInf else Fin v)"

fun negate :: "jsnum \<Rightarrow> jsnum" where
  "negate NaN = NaN"
| "negate (Fin r) = Fin (- r)"
| "negate PosInf = NegInf"
| "negate NegInf = PosInf"

definition round_double :: "rat \<Rightarrow> jsnum" where
  "round_double x =
     (if x = 0 then Fin 0
      else if 0 < x then round_double_pos x
      else negate (round_double_pos (- x)))"

subsection \<open>ToString\<close>

definition digit_char :: "nat \<Rightarrow> char" where
  "digit_char d = ''0123456789'' ! (d mod 10)"

fun nat_to_string :: "nat \<Rightarrow> string" where
  "nat_to_string n =
     (if n < 10 then [digit_char n]
      else nat_to_string (n div 10) @ [digit_char (n mod 10)])"

definition int_to_string :: "int \<Rightarrow> string" where
  "int_to_string i = (if i < 0 then CHR ''-'' # nat_to_string (nat (- i)) else nat_to_string (nat i))"

fun join_comma :: "string list \<Rightarrow> string" where
  "join_comma [] = []"
| "join_comma [s] = s"
| "join_comma (s # t # ss) = s @ CHR '','' # join_comma (t # ss)"

text \<open>
  \<open>String(v)\<close>, which is also the conversion of a template literal.  An array is its
  elements joined by commas, \<open>null\<close> and \<open>undefined\<close> elements giving the empty string.
  An object that \<open>JSON.parse\<close> made inherits \<open>toString\<close> and is \<open>[object Object]\<close>, unless
  it has a property of its own named \<open>toString\<close>: that property is not a function, and
  the conversion throws.  An integer is written with all its digits; JavaScript writes
  one of 22 digits or more with an exponent, and no statement below reads the digits of
  such a number.
\<close>

fun to_string :: "jsval \<Rightarrow> js_error + string"
  and elements_to_string :: "jsval list \<Rightarrow> js_error + string list" where
  "to_string JUndefined = Inr ''undefined''"
| "to_string JNull = Inr ''null''"
| "to_string (JBool b) = Inr (if b then ''true'' else ''false'')"
| "to_string (JNum n) = Inr (int_to_string n)"
| "to_string JNegZero = Inr ''0''"
| "to_string JInfinity = Inr ''Infinity''"
| "to_string JNegInfinity = Inr ''-Infinity''"
| "to_string (JStr s) = Inr s"
| "to_string (JArr xs) =
     (case elements_to_string xs of Inl e \<Rightarrow> Inl e | Inr ss \<Rightarrow> Inr (join_comma ss))"
| "to_string (JObj kvs) =
     (if ''toString'' \<in> set (map fst kvs) then Inl TypeError else Inr ''[object Object]'')"
| "elements_to_string [] = Inr []"
| "elements_to_string (x # xs) =
     (case (if x = JUndefined \<or> x = JNull then Inr [] else to_string x) of
        Inl e \<Rightarrow> Inl e
      | Inr s \<Rightarrow> (case elements_to_string xs of Inl e \<Rightarrow> Inl e | Inr ss \<Rightarrow> Inr (s # ss)))"

subsection \<open>ToNumber\<close>

definition trim :: "string \<Rightarrow> string" where
  "trim s = rev (dropWhile is_ws (rev (dropWhile is_ws s)))"

text \<open>The exponent part of a decimal literal, applied to the mantissa \<open>m\<close>.\<close>

definition exponent_part :: "rat \<Rightarrow> string \<Rightarrow> rat option" where
  "exponent_part m s =
     (case s of
        [] \<Rightarrow> Some m
      | e # r \<Rightarrow>
          if e = CHR ''e'' \<or> e = CHR ''E'' then
            (case r of
               [] \<Rightarrow> None
             | c # ds \<Rightarrow>
                 if c = CHR ''+'' then
                   (if ds \<noteq> [] \<and> list_all is_digit ds then Some (m * 10 ^ dec_val ds) else None)
                 else if c = CHR ''-'' then
                   (if ds \<noteq> [] \<and> list_all is_digit ds then Some (m / 10 ^ dec_val ds) else None)
                 else
                   (if list_all is_digit r then Some (m * 10 ^ dec_val r) else None))
          else None)"

text \<open>
  \<open>StrUnsignedDecimalLiteral\<close> without \<open>Infinity\<close>: digits, an optional fraction, an
  optional exponent, with a digit on at least one side of the point.  The result is the
  exact value of the literal.
\<close>

definition str_unsigned_decimal :: "string \<Rightarrow> rat option" where
  "str_unsigned_decimal s =
     (let ip = takeWhile is_digit s; rest = dropWhile is_digit s in
      case rest of
        [] \<Rightarrow> if ip = [] then None else Some (of_nat (dec_val ip))
      | c # r \<Rightarrow>
          if c = CHR ''.'' then
            (let fp = takeWhile is_digit r; rest2 = dropWhile is_digit r in
             if ip = [] \<and> fp = [] then None
             else exponent_part (of_nat (dec_val ip) + of_nat (dec_val fp) / 10 ^ length fp) rest2)
          else if ip = [] then None
          else exponent_part (of_nat (dec_val ip)) rest)"

definition radix_literal :: "nat \<Rightarrow> (char \<Rightarrow> bool) \<Rightarrow> (char \<Rightarrow> nat) \<Rightarrow> string \<Rightarrow> jsnum" where
  "radix_literal b ok dv ds =
     (if ds \<noteq> [] \<and> list_all ok ds then round_double (of_nat (radix_val b dv ds)) else NaN)"

text \<open>
  \<open>Number(s)\<close> for a string: white space is trimmed, the empty string is 0, then a
  hexadecimal, octal or binary integer literal, or a signed decimal literal or
  \<open>Infinity\<close>; anything else is \<open>NaN\<close>.  The value is the double nearest to the value of
  the literal.
\<close>

definition str_to_number :: "string \<Rightarrow> jsnum" where
  "str_to_number s =
     (let t = trim s in
      if t = [] then Fin 0
      else if take 2 t = ''0x'' \<or> take 2 t = ''0X'' then radix_literal 16 is_hex_digit hex_val (drop 2 t)
      else if take 2 t = ''0o'' \<or> take 2 t = ''0O'' then radix_literal 8 is_oct_digit digit_val (drop 2 t)
      else if take 2 t = ''0b'' \<or> take 2 t = ''0B'' then radix_literal 2 is_bin_digit digit_val (drop 2 t)
      else
        (let neg = (take 1 t = ''-'');
             u = (if take 1 t = ''-'' \<or> take 1 t = ''+'' then drop 1 t else t) in
         if u = ''Infinity'' then (if neg then NegInf else PosInf)
         else (case str_unsigned_decimal u of
                 None \<Rightarrow> NaN
               | Some r \<Rightarrow> round_double (if neg then - r else r))))"

text \<open>
  \<open>Number(v)\<close>.  An array or an object is converted to a string first, which may throw;
  the string of an object is not a number.
\<close>

fun to_number :: "jsval \<Rightarrow> js_error + jsnum" where
  "to_number JUndefined = Inr NaN"
| "to_number JNull = Inr (Fin 0)"
| "to_number (JBool b) = Inr (Fin (if b then 1 else 0))"
| "to_number (JNum n) = Inr (Fin (of_int n))"
| "to_number JNegZero = Inr (Fin 0)"
| "to_number JInfinity = Inr PosInf"
| "to_number JNegInfinity = Inr NegInf"
| "to_number (JStr s) = Inr (str_to_number s)"
| "to_number (JArr xs) =
     (case to_string (JArr xs) of Inl e \<Rightarrow> Inl e | Inr s \<Rightarrow> Inr (str_to_number s))"
| "to_number (JObj kvs) =
     (case to_string (JObj kvs) of Inl e \<Rightarrow> Inl e | Inr s \<Rightarrow> Inr (str_to_number s))"

subsection \<open>Arithmetic on numbers\<close>

text \<open>\<open>a < b\<close>: false when one of the two is \<open>NaN\<close>.\<close>

fun num_less :: "jsnum \<Rightarrow> jsnum \<Rightarrow> bool" where
  "num_less NaN b = False"
| "num_less a NaN = False"
| "num_less (Fin a) (Fin b) = (a < b)"
| "num_less (Fin a) PosInf = True"
| "num_less (Fin a) NegInf = False"
| "num_less PosInf b = False"
| "num_less NegInf NegInf = False"
| "num_less NegInf b = True"

text \<open>\<open>a + b\<close>, rounded to a double.\<close>

fun num_add :: "jsnum \<Rightarrow> jsnum \<Rightarrow> jsnum" where
  "num_add NaN b = NaN"
| "num_add a NaN = NaN"
| "num_add (Fin a) (Fin b) = round_double (a + b)"
| "num_add (Fin a) b = b"
| "num_add a (Fin b) = a"
| "num_add PosInf PosInf = PosInf"
| "num_add NegInf NegInf = NegInf"
| "num_add PosInf NegInf = NaN"
| "num_add NegInf PosInf = NaN"

text \<open>\<open>Math.min(a, b)\<close>.\<close>

definition num_min :: "jsnum \<Rightarrow> jsnum \<Rightarrow> jsnum" where
  "num_min a b = (if a = NaN \<or> b = NaN then NaN else if num_less b a then b else a)"

text \<open>\<open>a || d\<close> for a number \<open>a\<close>: \<open>NaN\<close> and 0 are the numbers that are not truthy.\<close>

definition num_or :: "jsnum \<Rightarrow> jsnum \<Rightarrow> jsnum" where
  "num_or a d = (if a = NaN \<or> a = Fin 0 then d else a)"

subsection \<open>parseInt\<close>

text \<open>
  \<open>parseInt(s)\<close> with no radix: leading white space is skipped, a sign is read, a \<open>0x\<close>
  prefix selects base 16, and the longest prefix of digits is the value, as the double
  nearest to it; \<open>NaN\<close> when there is no digit.
\<close>

definition parse_int_str :: "string \<Rightarrow> jsnum" where
  "parse_int_str s =
     (let t = dropWhile is_ws s;
          neg = (take 1 t = ''-'');
          u = (if take 1 t = ''-'' \<or> take 1 t = ''+'' then drop 1 t else t) in
      if take 2 u = ''0x'' \<or> take 2 u = ''0X'' then
        (let ds = takeWhile is_hex_digit (drop 2 u) in
         if ds = [] then NaN
         else round_double (if neg then - of_nat (radix_val 16 hex_val ds)
                            else of_nat (radix_val 16 hex_val ds)))
      else
        (let ds = takeWhile is_digit u in
         if ds = [] then NaN
         else round_double (if neg then - of_nat (dec_val ds) else of_nat (dec_val ds))))"

text \<open>\<open>parseInt(v)\<close> converts its argument to a string first.\<close>

definition js_parseInt :: "jsval \<Rightarrow> js_error + jsnum" where
  "js_parseInt v = (case to_string v of Inl e \<Rightarrow> Inl e | Inr s \<Rightarrow> Inr (parse_int_str s))"

section \<open>Validation of a registration\<close>

text \<open>
  The language of
  \<open>^(?:(?:25[0-5]|2[0-4][0-9]|[01]?[0-9][0-9]?)\.){3}(?:25[0-5]|2[0-4][0-9]|[01]?[0-9][0-9]?)$\<close>:
  four octets separated by points.
\<close>

fun octet_match :: "string \<Rightarrow> bool" where
  "octet_match [a] = is_digit a"
| "octet_match [a, b] = (is_digit a \<and> is_digit b)"
| "octet_match [a, b, c] =
     ((a = CHR ''2'' \<and> b = CHR ''5'' \<and> in_range (CHR ''0'') (CHR ''5'') c)
      \<or> (a = CHR ''2'' \<and> in_range (CHR ''0'') (CHR ''4'') b \<and> is_digit c)
      \<or> ((a = CHR ''0'' \<or> a = CHR ''1'') \<and> is_digit b \<and> is_digit c))"
| "octet_match s = False"

fun split_dot :: "string \<Rightarrow> string list" where
  "split_dot [] = [[]]"
| "split_dot (c # cs) =
     (if c = CHR ''.'' then [] # split_dot cs
      else (case split_dot cs of [] \<Rightarrow> [[c]] | p # ps \<Rightarrow> (c # p) # ps))"

definition ipRegex_test_str :: "string \<Rightarrow> bool" where
  "ipRegex_test_str s = (let ps = split_dot s in length ps = 4 \<and> list_all octet_match ps)"

text \<open>\<open>ipRegex.test(v)\<close> converts its argument to a string, which may throw.\<close>

definition ipRegex_test :: "jsval \<Rightarrow> js_error + bool" where
  "ipRegex_test v = (case to_string v of Inl e \<Rightarrow> Inl e | Inr s \<Rightarrow> Inr (ipRegex_test_str s))"

text \<open>
  \<open>v.includes(':')\<close>: on a string, whether it contains the character; on an array,
  whether the string \<open>':'\<close> is an element; numbers, booleans and objects have no such
  method and the call throws.
\<close>

fun includes_colon :: "jsval \<Rightarrow> js_error + bool" where
  "includes_colon (JStr s) = Inr (CHR '':'' \<in> set s)"
| "includes_colon (JArr xs) = Inr (JStr '':'' \<in> set xs)"
| "includes_colon v = Inl TypeError"

definition typeof_string :: "jsval \<Rightarrow> bool" where
  "typeof_string v = (case v of JStr s \<Rightarrow> True | _ \<Rightarrow> False)"

text \<open>\<open>data.id.length\<close>, read only after \<open>typeof data.id\<close> is known to be string.\<close>

definition str_length :: "jsval \<Rightarrow> nat" where
  "str_length v = (case v of JStr s \<Rightarrow> length s | _ \<Rightarrow> 0)"

record peer_data =
  data_id :: jsval
  data_ip :: jsval
  data_port :: jsval

definition check_id :: "peer_data \<Rightarrow> string list" where
  "check_id data =
     (if \<not> truthy (data_id data) \<or> \<not> typeof_string (data_id data) \<or> str_length (data_id data) < 10
      then [''Invalid peer ID''] else [])"

definition check_ip :: "peer_data \<Rightarrow> string list" where
  "check_ip data =
     (if \<not> truthy (data_ip data) \<or> \<not> typeof_string (data_ip data)
      then [''Invalid IP address''] else [])"

text \<open>
  \<open>!data.port || isNaN(data.port) || data.port < 1 || data.port > 65535\<close>: the three
  tests after the first convert the port to a number, which may throw.
\<close>

definition check_port :: "peer_data \<Rightarrow> js_error + string list" where
  "check_port data =
     (if \<not> truthy (data_port data) then Inr [''Invalid port number'']
      else (case to_number (data_port data) of
              Inl e \<Rightarrow> Inl e
            | Inr n \<Rightarrow>
                Inr (if n = NaN \<or> num_less n (Fin 1) \<or> num_less (Fin 65535) n
                     then [''Invalid port number''] else [])))"

text \<open>
  The format check is \<open>data.ip && !ipRegex.test(data.ip) && !data.ip.includes(':')\<close>;
  \<open>includes\<close> is reached only when the first two conjuncts hold.
\<close>

definition check_ip_format :: "peer_data \<Rightarrow> js_error + string list" where
  "check_ip_format data =
     (if truthy (data_ip data) then
        (case ipRegex_test (data_ip data) of
           Inl e \<Rightarrow> Inl e
         | Inr m \<Rightarrow>
             if \<not> m then
               (case includes_colon (data_ip data) of
                  Inl e \<Rightarrow> Inl e
                | Inr b \<Rightarrow> Inr (if \<not> b then [''Invalid IP address format''] else []))
             else Inr [])
      else Inr [])"

text \<open>The four checks in the order of the source; an exception of one ends the function.\<close>

definition validatePeerData :: "peer_data \<Rightarrow> js_error + string list" where
  "validatePeerData data =
     (case check_port data of
        Inl e \<Rightarrow> Inl e
      | Inr port_errors \<Rightarrow>
          (case check_ip_format data of
             Inl e \<Rightarrow> Inl e
           | Inr format_errors \<Rightarrow>
               Inr (check_id data @ check_ip data @ port_errors @ format_errors)))"

section \<open>The peer registry\<close>

text \<open>
  A stored peer, as the object literal of \<open>POST /register\<close> builds it.  \<open>port\<close> is the
  result of \<open>parseInt\<close>; the time stamps are \<open>Date.now()\<close> milliseconds.
\<close>

record peer =
  id_p :: jsval
  ip :: jsval
  port :: jsnum
  name :: jsval
  version :: jsval
  capabilities :: "jsval list"
  lastSeen :: int
  registeredAt :: int
  updatedAt :: int
  connectionCount :: int
  userAgent :: string
  ipAddress :: string


text \<open>One constructor for each call of the logger, carrying the values it is given.\<close>

datatype log_event =
    LogRegistered bool jsval
  | LogRegistrationError
  | LogRemovedInactive jsval int
  | LogCleanupCompleted nat
  | LogUnregistered jsval
  | LogNewConnection
  | LogWsRegistered jsval
  | LogUnknownType jsval
  | LogMessageError
  | LogDisconnected jsval
  | LogWsError
  | LogForwarded string jsval jsval
  | LogTargetNotFound jsval
  | LogUncaughtException


datatype ready_state = CONNECTING | OPEN | CLOSING | CLOSED

text \<open>
  A WebSocket connection: the \<open>peerId\<close> variable of its handlers, its \<open>readyState\<close>,
  and the frames sent on it so far, oldest first.  When \<open>peerId\<close> is an array or an
  object, \<open>peerRef\<close> is the reference that it is.
\<close>

record socket =
  peerId :: jsval
  peerRef :: nat
  readyState :: ready_state
  sent :: "jsval list"

text \<open>
  A key of \<open>websocketClients\<close>.  A \<open>Map\<close> compares strings, numbers, booleans, \<open>null\<close>
  and \<open>undefined\<close> by value, the two zeros being one key, and arrays and objects by
  reference: an array or object key is the value together with the number of its
  reference.
\<close>

datatype ws_key = ByValue jsval | ByRef nat jsval

fun key_value :: "ws_key \<Rightarrow> jsval" where
  "key_value (ByValue v) = v"
| "key_value (ByRef r v) = v"

text \<open>
  The state of the process.  \<open>peers\<close> and \<open>websocketClients\<close> are the two \<open>Map\<close>s, as
  association lists in insertion order; the keys of \<open>peers\<close> are strings (a registration
  is stored only after its id has passed validation).  A channel handle is a number.
  \<open>next_ref\<close> is the number of the next reference, \<open>exited\<close> says that the handler of
  uncaught exceptions has ended the process.
\<close>

record server =
  peers :: "(jsval \<times> peer) list"
  websocketClients :: "(ws_key \<times> nat) list"
  sockets :: "nat \<Rightarrow> socket"
  totalRegistrations :: nat
  errors :: nat
  logged :: "log_event list"
  next_ref :: nat
  exited :: bool

definition logger :: "log_event \<Rightarrow> server \<Rightarrow> server" where
  "logger e st = st\<lparr>logged := logged st @ [e]\<rparr>"

subsection \<open>Responses\<close>

record registered_peer =
  reg_id :: jsval
  reg_name :: jsval
  reg_version :: jsval
  reg_capabilities :: "jsval list"
  reg_registeredAt :: int
  reg_updatedAt :: int

record network =
  totalPeers :: nat
  activePeers :: nat

record public_peer =
  pub_id :: jsval
  pub_ip :: jsval
  pub_port :: jsnum
  pub_name :: jsval
  pub_version :: jsval
  pub_capabilities :: "jsval list"
  pub_lastSeen :: int
  pub_registeredAt :: int
  pub_connectionCount :: int

record pagination =
  pg_total :: nat
  pg_limit :: jsnum
  pg_offset :: jsnum
  pg_hasMore :: bool

record filters =
  flt_activeOnly :: bool
  flt_capability :: jsval
  flt_version :: jsval

datatype response =
    RegisterOk bool registered_peer network
  | ValidationFailed "string list"
  | InternalServerError
  | PeersOk "public_peer list" pagination filters
  | PeerOk public_peer
  | PeerNotFound
  | UnregisterOk jsval jsval
  | HeartbeatOk int

subsection \<open>Sweep\<close>

definition inactiveThreshold :: int where
  "inactiveThreshold = 5 * 60 * 1000"

definition activeThreshold :: int where
  "activeThreshold = 2 * 60 * 1000"

text \<open>
  The loop of \<open>cleanupInactivePeers\<close> over the entries of the map, deleting as it goes;
  the second component is \<open>removedCount\<close>.
\<close>

fun cleanup_loop :: "int \<Rightarrow> (jsval \<times> peer) list \<Rightarrow> server \<times> nat \<Rightarrow> server \<times> nat" where
  "cleanup_loop now [] acc = acc"
| "cleanup_loop now ((k, p) # es) (st, removedCount) =
     (if now - lastSeen p > inactiveThreshold then
        cleanup_loop now es
          (logger (LogRemovedInactive k (now - lastSeen p))
             (st\<lparr>peers := AList.delete k (peers st)\<rparr>),
           removedCount + 1)
      else cleanup_loop now es (st, removedCount))"

definition cleanupInactivePeers :: "server \<Rightarrow> int \<Rightarrow> server" where
  "cleanupInactivePeers st now =
     (case cleanup_loop now (peers st) (st, 0) of
        (st', removedCount) \<Rightarrow>
          if removedCount > 0 then logger (LogCleanupCompleted removedCount) st' else st')"

subsection \<open>POST /register\<close>

record register_request =
  body_id :: jsval
  body_ip :: jsval
  body_port :: jsval
  body_name :: jsval
  body_capabilities :: jsval
  body_version :: jsval
  header_userAgent :: "string option"
  req_ip :: string

text \<open>\<open>name || `Peer-${id.substring(0, 8)}`\<close>; \<open>substring\<close> exists on strings only.\<close>

definition peer_name :: "jsval \<Rightarrow> jsval \<Rightarrow> js_error + jsval" where
  "peer_name nm i =
     (if truthy nm then Inr nm
      else (case i of JStr s \<Rightarrow> Inr (JStr (''Peer-'' @ take 8 s)) | _ \<Rightarrow> Inl TypeError))"

definition internal_error :: "log_event \<Rightarrow> server \<Rightarrow> response \<times> server" where
  "internal_error e st = (InternalServerError, logger e (st\<lparr>errors := errors st + 1\<rparr>))"

definition is_active :: "int \<Rightarrow> peer \<Rightarrow> bool" where
  "is_active now p = (now - lastSeen p < 2 * 60 * 1000)"

text \<open>
  The object literal of the handler: \<open>portNum\<close> is \<open>parseInt(port)\<close>, \<open>nm\<close> the name
  already chosen, \<open>existingPeer\<close> the result of \<open>peers.get(id)\<close>.  The defaults of the
  destructuring apply to a field that is \<open>undefined\<close>.
\<close>

definition make_peer :: "register_request \<Rightarrow> jsnum \<Rightarrow> jsval \<Rightarrow> peer option \<Rightarrow> int \<Rightarrow> peer" where
  "make_peer req portNum nm existingPeer now =
     (let capabilities0 = (if body_capabilities req = JUndefined then JArr [] else body_capabilities req);
          version0 = (if body_version req = JUndefined then JStr ''1.0.0'' else body_version req) in
      \<lparr>id_p = body_id req,
       ip = body_ip req,
       port = portNum,
       name = nm,
       version = version0,
       capabilities = (case capabilities0 of JArr xs \<Rightarrow> xs | _ \<Rightarrow> []),
       lastSeen = now,
       registeredAt = (case existingPeer of Some e \<Rightarrow> registeredAt e | None \<Rightarrow> now),
       updatedAt = now,
       connectionCount =
         (case existingPeer of
            Some e \<Rightarrow> (if connectionCount e \<noteq> 0 then connectionCount e else 0) + 1
          | None \<Rightarrow> 1),
       userAgent =
         (case header_userAgent req of
            Some ua \<Rightarrow> if ua \<noteq> [] then ua else ''Unknown''
          | None \<Rightarrow> ''Unknown''),
       ipAddress = req_ip req\<rparr>)"

text \<open>The handler; every exception inside it is caught and answered with the internal error.\<close>

definition register :: "server \<Rightarrow> register_request \<Rightarrow> int \<Rightarrow> response \<times> server" where
  "register st req now =
     (let i = body_id req in
      case validatePeerData \<lparr>data_id = i, data_ip = body_ip req, data_port = body_port req\<rparr> of
        Inl e \<Rightarrow> internal_error LogRegistrationError st
      | Inr validationErrors \<Rightarrow>
          if length validationErrors > 0 then (ValidationFailed validationErrors, st)
          else
            (case js_parseInt (body_port req) of
               Inl e \<Rightarrow> internal_error LogRegistrationError st
             | Inr portNum \<Rightarrow>
                 (let existingPeer = map_of (peers st) i;
                      isUpdate = (existingPeer \<noteq> None) in
                  case peer_name (body_name req) i of
                    Inl e \<Rightarrow> internal_error LogRegistrationError st
                  | Inr nm \<Rightarrow>
                      (let p = make_peer req portNum nm existingPeer now;
                           st1 = st\<lparr>peers := AList.update i p (peers st),
                                    totalRegistrations := totalRegistrations st + 1\<rparr>;
                           st2 = logger (LogRegistered isUpdate i) st1 in
                       (RegisterOk isUpdate
                          \<lparr>reg_id = id_p p, reg_name = name p, reg_version = version p,
                           reg_capabilities = capabilities p, reg_registeredAt = registeredAt p,
                           reg_updatedAt = updatedAt p\<rparr>
                          \<lparr>totalPeers = length (peers st2),
                           activePeers = length (filter (is_active now) (map snd (peers st2)))\<rparr>,
                        st2)))))"

subsection \<open>GET /peers\<close>

text \<open>
  The parameters of the query string, as the query parser gives them: a string, or an
  array or object of such for a repeated or bracketed parameter.  The parser keeps no
  property named \<open>toString\<close>, so the conversion of a parameter to a string does not throw.
\<close>

record peers_query =
  query_limit :: jsval
  query_active :: jsval
  query_capability :: jsval
  query_version :: jsval
  query_offset :: jsval

text \<open>\<open>ToIntegerOrInfinity\<close> of an index: the fraction is cut off, \<open>NaN\<close> is 0.\<close>

fun to_integer :: "jsnum \<Rightarrow> jsnum" where
  "to_integer NaN = Fin 0"
| "to_integer (Fin r) = Fin (of_int (if 0 \<le> r then \<lfloor>r\<rfloor> else \<lceil>r\<rceil>))"
| "to_integer PosInf = PosInf"
| "to_integer NegInf = NegInf"

text \<open>
  The position that an index of \<open>slice\<close> stands for in a list of length \<open>len\<close>: a
  negative index counts from the end, and the result is clamped to \<open>0..len\<close>.
\<close>

fun relative_index :: "nat \<Rightarrow> jsnum \<Rightarrow> nat" where
  "relative_index len NaN = 0"
| "relative_index len NegInf = 0"
| "relative_index len PosInf = len"
| "relative_index len (Fin r) =
     (if r < 0 then nat (max (int len + \<lfloor>r\<rfloor>) 0) else nat (min \<lfloor>r\<rfloor> (int len)))"

text \<open>
  \<open>xs.slice(start, end)\<close>: nothing is returned when the end is not after the start.
\<close>

definition js_slice :: "'a list \<Rightarrow> jsnum \<Rightarrow> jsnum \<Rightarrow> 'a list" where
  "js_slice xs start stop =
     (let k = relative_index (length xs) (to_integer start);
          final = relative_index (length xs) (to_integer stop) in
      take (final - k) (drop k xs))"

definition public :: "peer \<Rightarrow> public_peer" where
  "public p =
     \<lparr>pub_id = id_p p, pub_ip = ip p, pub_port = port p, pub_name = name p,
      pub_version = version p, pub_capabilities = capabilities p, pub_lastSeen = lastSeen p,
      pub_registeredAt = registeredAt p, pub_connectionCount = connectionCount p\<rparr>"

text \<open>
  \<open>parseInt(req.query.limit) || 50\<close> and \<open>parseInt(req.query.offset) || 0\<close>.  The first
  case is not taken for a parameter of a query string.
\<close>

definition parseInt_or :: "jsval \<Rightarrow> jsnum \<Rightarrow> jsnum" where
  "parseInt_or v d = (case js_parseInt v of Inl e \<Rightarrow> d | Inr n \<Rightarrow> num_or n d)"

text \<open>The three filters, in the order of the handler.\<close>

definition filter_peers :: "peers_query \<Rightarrow> int \<Rightarrow> peer list \<Rightarrow> peer list" where
  "filter_peers q now peerList =
     (let activeOnly = (query_active q = JStr ''true'');
          capability = query_capability q;
          version0 = query_version q;
          l1 = (if activeOnly then filter (\<lambda>p. now - lastSeen p < activeThreshold) peerList else peerList);
          l2 = (if truthy capability
                then filter (\<lambda>p. list_ex (\<lambda>c. strict_eq c capability) (capabilities p)) l1 else l1);
          l3 = (if truthy version0 then filter (\<lambda>p. strict_eq (version p) version0) l2 else l2)
      in l3)"

text \<open>\<open>peerList.sort((a, b) => b.lastSeen - a.lastSeen)\<close>; the sort is stable.\<close>

definition sort_lastSeen :: "peer list \<Rightarrow> peer list" where
  "sort_lastSeen peerList = sort_key (\<lambda>p. - lastSeen p) peerList"

definition list_peers :: "server \<Rightarrow> peers_query \<Rightarrow> int \<Rightarrow> response \<times> server" where
  "list_peers st q now =
     (let limit = num_min (parseInt_or (query_limit q) (Fin 50)) (Fin 100);
          offset = parseInt_or (query_offset q) (Fin 0);
          peerList = sort_lastSeen (filter_peers q now (map snd (peers st)));
          total = length peerList;
          page = js_slice peerList offset (num_add offset limit) in
      (PeersOk (map public page)
         \<lparr>pg_total = total, pg_limit = limit, pg_offset = offset,
          pg_hasMore = num_less (num_add offset limit) (Fin (of_nat total))\<rparr>
         \<lparr>flt_activeOnly = (query_active q = JStr ''true''),
          flt_capability = query_capability q, flt_version = query_version q\<rparr>,
       st))"

subsection \<open>GET /peers/:id, DELETE /peers/:id, POST /peers/:id/heartbeat\<close>

text \<open>The \<open>id\<close> of the path is a string.\<close>

definition get_peer :: "server \<Rightarrow> string \<Rightarrow> response \<times> server" where
  "get_peer st i =
     (case map_of (peers st) (JStr i) of
        None \<Rightarrow> (PeerNotFound, st)
      | Some p \<Rightarrow> (PeerOk (public p), st))"

definition delete_peer :: "server \<Rightarrow> string \<Rightarrow> response \<times> server" where
  "delete_peer st i =
     (case map_of (peers st) (JStr i) of
        None \<Rightarrow> (PeerNotFound, st)
      | Some p \<Rightarrow>
          (UnregisterOk (id_p p) (name p),
           logger (LogUnregistered (JStr i)) (st\<lparr>peers := AList.delete (JStr i) (peers st)\<rparr>)))"

definition heartbeat :: "server \<Rightarrow> string \<Rightarrow> int \<Rightarrow> response \<times> server" where
  "heartbeat st i now =
     (case map_of (peers st) (JStr i) of
        None \<Rightarrow> (PeerNotFound, st)
      | Some p \<Rightarrow>
          (let p' = p\<lparr>lastSeen := now\<rparr> in
           (HeartbeatOk (lastSeen p'), st\<lparr>peers := AList.update (JStr i) p' (peers st)\<rparr>)))"

section \<open>The signaling relay\<close>

text \<open>
  An inbound frame after \<open>JSON.parse\<close>: the fields the handlers read, absent ones
  \<open>undefined\<close>.  \<open>Malformed\<close> is a frame on which \<open>JSON.parse\<close> or the read of
  \<open>data.type\<close> throws.
\<close>

record ws_data =
  msg_type :: jsval
  msg_peerId :: jsval
  msg_from :: jsval
  msg_to :: jsval
  msg_offer :: jsval
  msg_answer :: jsval
  msg_candidate :: jsval

datatype ws_message = Malformed | Parsed ws_data

text \<open>
  What \<open>JSON.stringify\<close> writes for a value, read back as a value: an infinite number
  is written as \<open>null\<close>, and so is an \<open>undefined\<close> element of an array; the negative
  zero is written as \<open>0\<close>; a property whose value is \<open>undefined\<close> is left out.
\<close>

fun to_json :: "jsval \<Rightarrow> jsval"
  and elements_to_json :: "jsval list \<Rightarrow> jsval list"
  and properties_to_json :: "(string \<times> jsval) list \<Rightarrow> (string \<times> jsval) list" where
  "to_json JInfinity = JNull"
| "to_json JNegInfinity = JNull"
| "to_json (JArr xs) = JArr (elements_to_json xs)"
| "to_json (JObj kvs) = JObj (properties_to_json kvs)"
| "to_json JUndefined = JUndefined"
| "to_json JNull = JNull"
| "to_json (JBool b) = JBool b"
| "to_json (JNum n) = JNum n"
| "to_json JNegZero = JNum 0"
| "to_json (JStr s) = JStr s"
| "elements_to_json [] = []"
| "elements_to_json (x # xs) = (if x = JUndefined then JNull else to_json x) # elements_to_json xs"
| "properties_to_json [] = []"
| "properties_to_json (kv # kvs) =
     (if snd kv = JUndefined then properties_to_json kvs
      else (fst kv, to_json (snd kv)) # properties_to_json kvs)"

text \<open>The frame that \<open>JSON.stringify\<close> of an object literal puts on the wire.\<close>

definition json_object :: "(string \<times> jsval) list \<Rightarrow> jsval" where
  "json_object kvs = to_json (JObj kvs)"

text \<open>
  \<open>ws.send(frame)\<close>: a socket that is open takes the frame.  What the library does
  with a frame for a socket that is not open is not in the program; here nothing is
  delivered.
\<close>

definition ws_send :: "nat \<Rightarrow> jsval \<Rightarrow> server \<Rightarrow> server" where
  "ws_send h frame st =
     (if readyState (sockets st h) = OPEN
      then st\<lparr>sockets := (sockets st)(h := (sockets st h)\<lparr>sent := sent (sockets st h) @ [frame]\<rparr>)\<rparr>
      else st)"

text \<open>
  \<open>websocketClients.get(v)\<close> for a value \<open>v\<close> of the frame being handled: an array or
  object of this frame is a new reference and is not a key of the map.
\<close>

definition clients_get :: "server \<Rightarrow> jsval \<Rightarrow> nat option" where
  "clients_get st v =
     (if is_ref v then None else map_of (websocketClients st) (ByValue (plus_zero v)))"

text \<open>Whether \<open>String(v)\<close> returns.\<close>

definition converts :: "jsval \<Rightarrow> bool" where
  "converts v = (case to_string v of Inl e \<Rightarrow> False | Inr s \<Rightarrow> True)"

text \<open>
  A call of the logger whose message is a template literal over the values \<open>vs\<close>: the
  entry is written when each of them converts to a string, and a conversion that throws
  ends the handler.  The first component is the exception, if any.
\<close>

definition log_template :: "jsval list \<Rightarrow> log_event \<Rightarrow> server \<Rightarrow> js_error option \<times> server" where
  "log_template vs e st =
     (if list_all converts vs then (None, logger e st) else (Some TypeError, st))"

text \<open>
  The common body of \<open>handlePeerOffer\<close>, \<open>handlePeerAnswer\<close> and \<open>handleIceCandidate\<close>:
  \<open>ty\<close> is the type of the frame, \<open>key\<close> and \<open>payload\<close> its third property.
\<close>

definition relay :: "string \<Rightarrow> string \<Rightarrow> jsval \<Rightarrow> ws_data \<Rightarrow> server \<Rightarrow> js_error option \<times> server" where
  "relay ty key payload data st =
     (case clients_get st (msg_to data) of
        None \<Rightarrow> log_template [msg_to data] (LogTargetNotFound (msg_to data)) st
      | Some targetPeer \<Rightarrow>
          if readyState (sockets st targetPeer) = OPEN then
            log_template [msg_from data, msg_to data]
              (LogForwarded ty (msg_from data) (msg_to data))
              (ws_send targetPeer
                 (json_object [(''type'', JStr ty), (''from'', msg_from data), (key, payload)]) st)
          else log_template [msg_to data] (LogTargetNotFound (msg_to data)) st)"

definition handlePeerOffer :: "ws_data \<Rightarrow> nat \<Rightarrow> server \<Rightarrow> js_error option \<times> server" where
  "handlePeerOffer data senderWs st = relay ''peer_offer'' ''offer'' (msg_offer data) data st"

definition handlePeerAnswer :: "ws_data \<Rightarrow> nat \<Rightarrow> server \<Rightarrow> js_error option \<times> server" where
  "handlePeerAnswer data senderWs st = relay ''peer_answer'' ''answer'' (msg_answer data) data st"

definition handleIceCandidate :: "ws_data \<Rightarrow> nat \<Rightarrow> server \<Rightarrow> js_error option \<times> server" where
  "handleIceCandidate data senderWs st =
     relay ''ice_candidate'' ''candidate'' (msg_candidate data) data st"

text \<open>The \<open>peer_list\<close> frame, before \<open>JSON.stringify\<close>.\<close>

definition peer_entry :: "peer \<Rightarrow> jsval" where
  "peer_entry p =
     JObj [(''id'', id_p p), (''name'', name p),
           (''capabilities'', JArr (capabilities p)), (''lastSeen'', JNum (lastSeen p))]"

definition peer_list_frame :: "server \<Rightarrow> jsval" where
  "peer_list_frame st =
     json_object [(''type'', JStr ''peer_list''),
                  (''peers'', JArr (map peer_entry (map snd (peers st))))]"

text \<open>\<open>wss.on('connection')\<close> for the new socket \<open>ws\<close>.\<close>

definition on_connection :: "nat \<Rightarrow> server \<Rightarrow> server" where
  "on_connection ws st =
     logger LogNewConnection
       (st\<lparr>sockets := (sockets st)
              (ws := \<lparr>peerId = JNull, peerRef = 0, readyState = OPEN, sent = []\<rparr>)\<rparr>)"

text \<open>
  The \<open>register\<close> case: the variable and the map are set, then the log line converts
  \<open>peerId\<close> to a string, then the list of peers is sent.
\<close>

definition register_channel :: "nat \<Rightarrow> ws_data \<Rightarrow> server \<Rightarrow> js_error option \<times> server" where
  "register_channel ws data st =
     (let v = msg_peerId data;
          r = next_ref st;
          k = (if is_ref v then ByRef r v else ByValue (plus_zero v));
          st1 = st\<lparr>sockets := (sockets st)(ws := (sockets st ws)\<lparr>peerId := v, peerRef := r\<rparr>),
                   websocketClients := AList.update k ws (websocketClients st),
                   next_ref := (if is_ref v then Suc r else r)\<rparr> in
      case log_template [v] (LogWsRegistered v) st1 of
        (Some err, st2) \<Rightarrow> (Some err, st2)
      | (None, st2) \<Rightarrow> (None, ws_send ws (peer_list_frame st2) st2))"

text \<open>The body of the \<open>try\<close> of \<open>ws.on('message')\<close>: the \<open>switch\<close> on \<open>data.type\<close>.\<close>

definition dispatch :: "nat \<Rightarrow> ws_message \<Rightarrow> server \<Rightarrow> js_error option \<times> server" where
  "dispatch ws message st =
     (case message of
        Malformed \<Rightarrow> (Some SyntaxError, st)
      | Parsed data \<Rightarrow>
          if msg_type data = JStr ''register'' then register_channel ws data st
          else if msg_type data = JStr ''peer_offer'' then handlePeerOffer data ws st
          else if msg_type data = JStr ''peer_answer'' then handlePeerAnswer data ws st
          else if msg_type data = JStr ''ice_candidate'' then handleIceCandidate data ws st
          else if msg_type data = JStr ''ping''
            then (None, ws_send ws (json_object [(''type'', JStr ''pong'')]) st)
          else (None, logger (LogUnknownType (msg_type data)) st))"

text \<open>\<open>ws.on('message')\<close>: the \<open>catch\<close> logs the exception.\<close>

definition on_message :: "nat \<Rightarrow> ws_message \<Rightarrow> server \<Rightarrow> server" where
  "on_message ws message st =
     (case dispatch ws message st of
        (None, st') \<Rightarrow> st'
      | (Some err, st') \<Rightarrow> logger LogMessageError st')"

text \<open>The key under which a socket deletes: its \<open>peerId\<close>, as the reference it is.\<close>

definition socket_key :: "socket \<Rightarrow> ws_key" where
  "socket_key s =
     (if is_ref (peerId s) then ByRef (peerRef s) (peerId s) else ByValue (plus_zero (peerId s)))"

text \<open>
  \<open>ws.on('close')\<close>: the socket is closed, and the entry of its \<open>peerId\<close> deleted.  An
  exception of the log line is caught by nothing: the handler of uncaught exceptions
  logs it and ends the process.
\<close>

definition on_close :: "nat \<Rightarrow> server \<Rightarrow> server" where
  "on_close ws st =
     (let st1 = st\<lparr>sockets := (sockets st)(ws := (sockets st ws)\<lparr>readyState := CLOSED\<rparr>)\<rparr>;
          pid = peerId (sockets st ws) in
      if truthy pid
      then (case log_template [pid] (LogDisconnected pid)
                   (st1\<lparr>websocketClients :=
                           AList.delete (socket_key (sockets st ws)) (websocketClients st1)\<rparr>) of
              (None, st2) \<Rightarrow> st2
            | (Some err, st2) \<Rightarrow> logger LogUncaughtException (st2\<lparr>exited := True\<rparr>))
      else st1)"

definition on_error :: "nat \<Rightarrow> server \<Rightarrow> server" where
  "on_error ws st = logger LogWsError st"

text \<open>The process at start: both maps empty, no socket open.\<close>

definition init_server :: server where
  "init_server =
     \<lparr>peers = [], websocketClients = [],
      sockets = (\<lambda>ws. \<lparr>peerId = JNull, peerRef = 0, readyState = CONNECTING, sent = []\<rparr>),
      totalRegistrations = 0, errors = 0, logged = [], next_ref = 0, exited = False\<rparr>"

text \<open>The peer ids bound to a channel handle in \<open>websocketClients\<close>.\<close>

definition bound_ids :: "server \<Rightarrow> nat \<Rightarrow> jsval list" where
  "bound_ids st ws = map (\<lambda>kh. key_value (fst kh)) (filter (\<lambda>kh. snd kh = ws) (websocketClients st))"

section \<open>Example inputs and predicates of the statements\<close>

text \<open>A registration as the test script sends it, and the state after it at time 1000.\<close>

definition testPeer :: register_request where
  "testPeer =
     \<lparr>body_id = JStr ''test_peer_1700000000000'', body_ip = JStr ''192.168.1.100'',
      body_port = JNum 4001, body_name = JStr ''Test Node'',
      body_capabilities = JArr [JStr ''websocket'', JStr ''webrtc''], body_version = JStr ''1.0.0'',
      header_userAgent = Some ''node'', req_ip = ''127.0.0.1''\<rparr>"

definition one_peer :: server where
  "one_peer = snd (register init_server testPeer 1000)"

definition register_ok :: "response \<Rightarrow> bool" where
  "register_ok r = (case r of RegisterOk u rp nw \<Rightarrow> True | _ \<Rightarrow> False)"

text \<open>A query with \<open>active=true\<close> and no other parameter, and the query with none at all.\<close>

definition no_query :: peers_query where
  "no_query =
     \<lparr>query_limit = JUndefined, query_active = JUndefined, query_capability = JUndefined,
      query_version = JUndefined, query_offset = JUndefined\<rparr>"


text \<open>The test peer seen at the given time, under the given id.\<close>

definition seen_at :: "string \<Rightarrow> int \<Rightarrow> jsval \<times> peer" where
  "seen_at i t =
     (JStr i,
      \<lparr>id_p = JStr i, ip = JStr ''192.168.1.100'', port = Fin 4001, name = JStr ''Test Node'',
       version = JStr ''1.0.0'', capabilities = [JStr ''websocket'', JStr ''webrtc''],
       lastSeen = t, registeredAt = 0, updatedAt = t, connectionCount = 1,
       userAgent = ''node'', ipAddress = ''127.0.0.1''\<rparr>)"


text \<open>
  A registry of 120 peers in the order of their registration, the \<open>n\<close>-th last seen at
  time \<open>n\<close>: a listing is in the opposite order.
\<close>

definition numbered_peer :: "nat \<Rightarrow> jsval \<times> peer" where
  "numbered_peer n = seen_at (''peer_number_'' @ nat_to_string n) (int n)"

definition many_peers :: server where
  "many_peers = init_server\<lparr>peers := map numbered_peer [0..<120]\<rparr>"

text \<open>The \<open>n\<close>-th of these peers as a response is to show it.\<close>

definition numbered_public :: "nat \<Rightarrow> public_peer" where
  "numbered_public n =
     \<lparr>pub_id = JStr (''peer_number_'' @ nat_to_string n), pub_ip = JStr ''192.168.1.100'',
      pub_port = Fin 4001, pub_name = JStr ''Test Node'', pub_version = JStr ''1.0.0'',
      pub_capabilities = [JStr ''websocket'', JStr ''webrtc''], pub_lastSeen = int n,
      pub_registeredAt = 0, pub_connectionCount = 1\<rparr>"

definition page_query :: "string \<Rightarrow> string \<Rightarrow> peers_query" where
  "page_query l off = no_query\<lparr>query_limit := JStr l, query_offset := JStr off\<rparr>"

text \<open>The query \<open>limit=-5\<close>.\<close>

definition negative_limit_query :: peers_query where
  "negative_limit_query = no_query\<lparr>query_limit := JStr ''-5''\<rparr>"

text \<open>The records of a response of \<open>GET /peers\<close>.\<close>

definition listed :: "response \<Rightarrow> public_peer list" where
  "listed r = (case r of PeersOk ps pg fl \<Rightarrow> ps | _ \<Rightarrow> [])"

text \<open>Frames of the signaling protocol, and two channels registered as \<open>A\<close> and \<open>B\<close>.\<close>

definition no_data :: ws_data where
  "no_data =
     \<lparr>msg_type = JUndefined, msg_peerId = JUndefined, msg_from = JUndefined, msg_to = JUndefined,
      msg_offer = JUndefined, msg_answer = JUndefined, msg_candidate = JUndefined\<rparr>"

definition register_msg :: "string \<Rightarrow> ws_message" where
  "register_msg i = Parsed (no_data\<lparr>msg_type := JStr ''register'', msg_peerId := JStr i\<rparr>)"




text \<open>
  The object \<open>{"toString": 1}\<close>, as \<open>JSON.parse\<close> gives it: its conversion to a string
  throws.  Then an offer from \<open>A\<close> addressed to it, and a \<open>register\<close> frame that carries
  it as the peer id.
\<close>

definition unprintable :: jsval where
  "unprintable = JObj [(''toString'', JNum 1)]"


definition register_unprintable :: ws_message where
  "register_unprintable =
     Parsed (no_data\<lparr>msg_type := JStr ''register'', msg_peerId := unprintable\<rparr>)"

text \<open>
  The values that \<open>JSON.stringify\<close> writes as they are: no infinite number, no negative
  zero, and no \<open>undefined\<close>.
\<close>

fun plain_json :: "jsval \<Rightarrow> bool"
  and plain_elements :: "jsval list \<Rightarrow> bool"
  and plain_properties :: "(string \<times> jsval) list \<Rightarrow> bool" where
  "plain_json JUndefined = False"
| "plain_json JInfinity = False"
| "plain_json JNegZero = False"
| "plain_json JNegInfinity = False"
| "plain_json (JArr xs) = plain_elements xs"
| "plain_json (JObj kvs) = plain_properties kvs"
| "plain_json JNull = True"
| "plain_json (JBool b) = True"
| "plain_json (JNum n) = True"
| "plain_json (JStr s) = True"
| "plain_elements [] = True"
| "plain_elements (x # xs) = (plain_json x \<and> plain_elements xs)"
| "plain_properties [] = True"
| "plain_properties (kv # kvs) = (plain_json (snd kv) \<and> plain_properties kvs)"

text \<open>The registry of one peer, with channel 1 connected.\<close>

definition one_peer_connected :: server where
  "one_peer_connected = on_connection 1 one_peer"

text \<open>
  A record with the two fields of the requester blanked; two states whose records differ
  in those fields only; two registrations that differ in the header and address of the
  requester only.
\<close>

definition redact :: "peer \<Rightarrow> peer" where
  "redact p = p\<lparr>userAgent := [], ipAddress := []\<rparr>"

definition same_public :: "server \<Rightarrow> server \<Rightarrow> bool" where
  "same_public s t =
     (map (\<lambda>(k, p). (k, redact p)) (peers s) = map (\<lambda>(k, p). (k, redact p)) (peers t))"

definition same_request :: "register_request \<Rightarrow> register_request \<Rightarrow> bool" where
  "same_request r1 r2 =
     (r1\<lparr>header_userAgent := None, req_ip := []\<rparr> = r2\<lparr>header_userAgent := None, req_ip := []\<rparr>)"

text \<open>The state of one peer, registered by another browser from another address.\<close>

definition one_peer_elsewhere :: server where
  "one_peer_elsewhere =
     snd (register init_server (testPeer\<lparr>header_userAgent := Some ''Mozilla/5.0'', req_ip := ''10.0.0.7''\<rparr>) 1000)"

text \<open>
  The three constraints of a registration in the words of the specification: the id is
  a string of at least 10 characters; the ip is a non-empty string that is a dotted quad
  or contains a colon; the port is a number from 1 to 65535.
\<close>

definition id_ok :: "jsval \<Rightarrow> bool" where
  "id_ok v = (case v of JStr s \<Rightarrow> 10 \<le> length s | _ \<Rightarrow> False)"

definition ip_ok :: "jsval \<Rightarrow> bool" where
  "ip_ok v = (case v of JStr s \<Rightarrow> s \<noteq> [] \<and> (ipRegex_test_str s \<or> CHR '':'' \<in> set s) | _ \<Rightarrow> False)"

definition port_ok :: "jsval \<Rightarrow> bool" where
  "port_ok v = (case to_number v of Inr (Fin r) \<Rightarrow> 1 \<le> r \<and> r \<le> 65535 | _ \<Rightarrow> False)"

text \<open>A registration whose id is too short, whose ip is a number and whose port is 0.\<close>

definition numeric_ip_request :: register_request where
  "numeric_ip_request =
     \<lparr>body_id = JStr ''short'', body_ip = JNum 12345, body_port = JNum 0, body_name = JUndefined,
      body_capabilities = JUndefined, body_version = JUndefined,
      header_userAgent = None, req_ip = ''127.0.0.1''\<rparr>"

text \<open>The same registration with the ip as a string.\<close>

definition bad_request :: register_request where
  "bad_request = numeric_ip_request\<lparr>body_ip := JStr ''12345''\<rparr>"

text \<open>One channel that sends \<open>register\<close> twice, as \<open>A\<close> and then as \<open>B\<close>.\<close>

definition registered_twice :: server where
  "registered_twice =
     on_message 1 (register_msg ''B'') (on_message 1 (register_msg ''A'') (on_connection 1 init_server))"

text \<open>
  The states of the process: those that the handlers and the sweep produce from the
  start, as long as the process has not been ended.
\<close>

inductive reachable :: "server \<Rightarrow> bool" where
  start: "reachable init_server"
| post_register: "reachable st \<Longrightarrow> \<not> exited st \<Longrightarrow> reachable (snd (register st req now))"
| get_list: "reachable st \<Longrightarrow> \<not> exited st \<Longrightarrow> reachable (snd (list_peers st q now))"
| get_one: "reachable st \<Longrightarrow> \<not> exited st \<Longrightarrow> reachable (snd (get_peer st i))"
| post_heartbeat: "reachable st \<Longrightarrow> \<not> exited st \<Longrightarrow> reachable (snd (heartbeat st i now))"
| delete: "reachable st \<Longrightarrow> \<not> exited st \<Longrightarrow> reachable (snd (delete_peer st i))"
| sweep: "reachable st \<Longrightarrow> \<not> exited st \<Longrightarrow> reachable (cleanupInactivePeers st now)"
| connection: "reachable st \<Longrightarrow> \<not> exited st \<Longrightarrow> reachable (on_connection ws st)"
| message: "reachable st \<Longrightarrow> \<not> exited st \<Longrightarrow> reachable (on_message ws m st)"
| close: "reachable st \<Longrightarrow> \<not> exited st \<Longrightarrow> reachable (on_close ws st)"
| error: "reachable st \<Longrightarrow> \<not> exited st \<Longrightarrow> reachable (on_error ws st)"

text \<open>
  What holds of the two maps in every such state: keys are distinct; a reference that
  is a key of \<open>websocketClients\<close> is older than the next one; a stored record sits under
  its own id, which is a string of at least 10 characters, and has a name.
\<close>

fun older_than :: "nat \<Rightarrow> ws_key \<Rightarrow> bool" where
  "older_than n (ByValue v) = True"
| "older_than n (ByRef r v) = (r < n)"

definition maps_ok :: "server \<Rightarrow> bool" where
  "maps_ok st =
     (distinct (map fst (peers st)) \<and> distinct (map fst (websocketClients st))
      \<and> (\<forall>kh \<in> set (websocketClients st). older_than (next_ref st) (fst kh))
      \<and> (\<forall>kp \<in> set (peers st). id_p (snd kp) = fst kp \<and> id_ok (fst kp) \<and> truthy (name (snd kp))))"

text \<open>The part of this that is about \<open>websocketClients\<close>, and the part about \<open>peers\<close>.\<close>

definition clients_ok :: "server \<Rightarrow> bool" where
  "clients_ok st =
     (distinct (map fst (websocketClients st))
      \<and> (\<forall>kh \<in> set (websocketClients st). older_than (next_ref st) (fst kh)))"

definition peers_ok :: "server \<Rightarrow> bool" where
  "peers_ok st =
     (distinct (map fst (peers st))
      \<and> (\<forall>kp \<in> set (peers st). id_p (snd kp) = fst kp \<and> id_ok (fst kp) \<and> truthy (name (snd kp))))"

section \<open>Runs of whole handlers\<close>










section \<open>Evaluation\<close>

text \<open>The definitions that the simplifier unfolds to run the model on a concrete input.\<close>

declare bits.simps [simp del] nat_to_string.simps [simp del]

lemmas double_defs = bits.simps pow2_def binary_exponent_def round_half_even_def
  round_double_pos_def round_double_def Let_def

lemmas js_defs = code_def in_range_def is_digit_def digit_val_def is_hex_digit_def hex_val_def
  is_oct_digit_def is_bin_digit_def is_ws_def radix_val_def dec_val_def digit_char_def
  nat_to_string.simps int_to_string_def trim_def exponent_part_def str_unsigned_decimal_def radix_literal_def
  str_to_number_def num_min_def num_or_def parse_int_str_def js_parseInt_def
  ipRegex_test_str_def ipRegex_test_def typeof_string_def str_length_def converts_def

lemmas validate_defs = check_id_def check_ip_def check_port_def check_ip_format_def
  validatePeerData_def

lemmas handler_defs = register_def make_peer_def peer_name_def internal_error_def logger_def is_active_def
  get_peer_def delete_peer_def heartbeat_def init_server_def

section \<open>Registration is an upsert\<close>

lemma testPeer_valid:
  "validatePeerData \<lparr>data_id = body_id testPeer, data_ip = body_ip testPeer,
                     data_port = body_port testPeer\<rparr> = Inr []"
  by (simp add: testPeer_def js_defs validate_defs)

lemma testPeer_port: "js_parseInt (body_port testPeer) = Inr (Fin 4001)"
  by (simp add: testPeer_def js_defs nat_to_string.simps double_defs)

lemma one_peer_peers:
  "peers one_peer =
     [(JStr ''test_peer_1700000000000'',
       \<lparr>id_p = JStr ''test_peer_1700000000000'', ip = JStr ''192.168.1.100'', port = Fin 4001,
        name = JStr ''Test Node'', version = JStr ''1.0.0'',
        capabilities = [JStr ''websocket'', JStr ''webrtc''], lastSeen = 1000,
        registeredAt = 1000, updatedAt = 1000, connectionCount = 1, userAgent = ''node'',
        ipAddress = ''127.0.0.1''\<rparr>)]"
  unfolding one_peer_def register_def Let_def testPeer_valid testPeer_port
  by (simp add: testPeer_def handler_defs)

text \<open>
  C1.  When \<open>POST /register\<close> succeeds, the record stored under the id has
  \<open>lastSeen = updatedAt = now\<close>; if a record for the id existed, it keeps that record's
  \<open>registeredAt\<close> and its \<open>connectionCount\<close> is the old one plus 1; if none existed, the
  record is fresh, with \<open>connectionCount = 1\<close> and \<open>registeredAt = now\<close>.
\<close>

theorem register_upsert:
  assumes "register_ok (fst (register st req now))"
  shows "\<exists>new. map_of (peers (snd (register st req now))) (body_id req) = Some new
           \<and> lastSeen new = now \<and> updatedAt new = now
           \<and> (case map_of (peers st) (body_id req) of
                 Some old \<Rightarrow> registeredAt new = registeredAt old
                             \<and> connectionCount new = connectionCount old + 1
               | None \<Rightarrow> registeredAt new = now \<and> connectionCount new = 1)"
  using assms
  by (auto simp: register_def make_peer_def Let_def register_ok_def internal_error_def logger_def
        update_conv' split: sum.splits if_splits option.splits)

theorem register_upsert_witness:
  "register_ok (fst (register init_server testPeer 1000))
   \<and> register_ok (fst (register one_peer testPeer 2000))
   \<and> (\<exists>new. map_of (peers (snd (register init_server testPeer 1000))) (body_id testPeer) = Some new
          \<and> lastSeen new = 1000 \<and> updatedAt new = 1000
          \<and> registeredAt new = 1000 \<and> connectionCount new = 1)
   \<and> (\<exists>new. map_of (peers (snd (register one_peer testPeer 2000))) (body_id testPeer) = Some new
          \<and> lastSeen new = 2000 \<and> updatedAt new = 2000
          \<and> registeredAt new = 1000 \<and> connectionCount new = 2)"
proof -
  have h1: "register_ok (fst (register init_server testPeer 1000))"
    unfolding register_def Let_def testPeer_valid testPeer_port
    by (simp add: register_ok_def testPeer_def handler_defs)
  have h2: "register_ok (fst (register one_peer testPeer 2000))"
    unfolding register_def Let_def testPeer_valid testPeer_port
    by (simp add: register_ok_def testPeer_def handler_defs)
  have e1: "map_of (peers init_server) (body_id testPeer) = None"
    by (simp add: init_server_def)
  have e2: "map_of (peers one_peer) (body_id testPeer)
              = Some (snd (hd (peers one_peer)))"
    by (simp add: one_peer_peers testPeer_def)
  have r: "registeredAt (snd (hd (peers one_peer))) = 1000"
          "connectionCount (snd (hd (peers one_peer))) = 1"
    by (simp_all add: one_peer_peers)
  show ?thesis
    using h1 h2 register_upsert [OF h1] register_upsert [OF h2]
    by (simp add: e1 e2 r)
qed

section \<open>Lookup, heartbeat and delete\<close>

text \<open>
  C8.  For an id that is not in the registry, \<open>GET /peers/:id\<close>, the heartbeat and
  \<open>DELETE /peers/:id\<close> answer not-found and leave the state as it was.  For an id that
  is in the registry, the heartbeat stores \<open>now\<close> as the \<open>lastSeen\<close> of that record,
  changes nothing else in the record or in the other records, and returns \<open>now\<close>.
\<close>

theorem not_found_and_heartbeat:
  "(map_of (peers st) (JStr i) = None \<longrightarrow>
      get_peer st i = (PeerNotFound, st) \<and> heartbeat st i now = (PeerNotFound, st)
      \<and> delete_peer st i = (PeerNotFound, st))
   \<and> (\<forall>p. map_of (peers st) (JStr i) = Some p \<longrightarrow>
         fst (heartbeat st i now) = HeartbeatOk now
         \<and> map_of (peers (snd (heartbeat st i now))) (JStr i) = Some (p\<lparr>lastSeen := now\<rparr>)
         \<and> (\<forall>k. k \<noteq> JStr i \<longrightarrow>
               map_of (peers (snd (heartbeat st i now))) k = map_of (peers st) k))"
  by (simp add: get_peer_def heartbeat_def delete_peer_def Let_def update_conv')

theorem not_found_and_heartbeat_witness:
  "map_of (peers one_peer) (JStr ''unknown_peer_id'') = None
   \<and> get_peer one_peer ''unknown_peer_id'' = (PeerNotFound, one_peer)
   \<and> heartbeat one_peer ''unknown_peer_id'' 5000 = (PeerNotFound, one_peer)
   \<and> delete_peer one_peer ''unknown_peer_id'' = (PeerNotFound, one_peer)
   \<and> map_of (peers one_peer) (JStr ''test_peer_1700000000000'') = Some (snd (hd (peers one_peer)))
   \<and> fst (heartbeat one_peer ''test_peer_1700000000000'' 5000) = HeartbeatOk 5000
   \<and> map_of (peers (snd (heartbeat one_peer ''test_peer_1700000000000'' 5000)))
        (JStr ''test_peer_1700000000000'') = Some ((snd (hd (peers one_peer)))\<lparr>lastSeen := 5000\<rparr>)"
proof -
  have a: "map_of (peers one_peer) (JStr ''unknown_peer_id'') = None"
    by (simp add: one_peer_peers)
  have b: "map_of (peers one_peer) (JStr ''test_peer_1700000000000'') = Some (snd (hd (peers one_peer)))"
    by (simp add: one_peer_peers)
  show ?thesis
    using a b not_found_and_heartbeat [of one_peer "''unknown_peer_id''" 5000]
      not_found_and_heartbeat [of one_peer "''test_peer_1700000000000''" 5000]
    by simp
qed

section \<open>The active window and the sweep\<close>

lemma peers_logger [simp]: "peers (logger e st) = peers st"
  by (simp add: logger_def)

lemma delete_append: "AList.delete k (xs @ ys) = AList.delete k xs @ AList.delete k ys"
  by (simp add: AList.delete_eq)

lemma cleanup_loop_peers:
  "distinct (map fst (pre @ es)) \<Longrightarrow> peers st = pre @ es \<Longrightarrow>
   peers (fst (cleanup_loop now es (st, n)))
     = pre @ filter (\<lambda>kp. \<not> now - lastSeen (snd kp) > inactiveThreshold) es"
proof (induction es arbitrary: st n pre)
  case Nil
  then show ?case by simp
next
  case (Cons e es)
  obtain k p where e: "e = (k, p)" by (cases e)
  from Cons.prems(1) have kpre: "k \<notin> fst ` set pre" and kes: "k \<notin> fst ` set es"
    by (auto simp: e)
  show ?case
  proof (cases "now - lastSeen p > inactiveThreshold")
    case True
    let ?st' = "logger (LogRemovedInactive k (now - lastSeen p))
                  (st\<lparr>peers := AList.delete k (peers st)\<rparr>)"
    have del: "peers ?st' = pre @ es"
      using kpre kes by (simp add: Cons.prems(2) e delete_append)
    have dist: "distinct (map fst (pre @ es))"
      using Cons.prems(1) by (simp add: e)
    from Cons.IH [OF dist del, of "n + 1"] True show ?thesis
      by (simp add: e)
  next
    case False
    have dist: "distinct (map fst ((pre @ [(k, p)]) @ es))"
      using Cons.prems(1) by (simp add: e)
    have eq: "peers st = (pre @ [(k, p)]) @ es"
      by (simp add: Cons.prems(2) e)
    from Cons.IH [OF dist eq, of n] False show ?thesis
      by (simp add: e)
  qed
qed

lemma cleanup_peers:
  "distinct (map fst (peers st)) \<Longrightarrow>
   peers (cleanupInactivePeers st now)
     = filter (\<lambda>kp. \<not> now - lastSeen (snd kp) > inactiveThreshold) (peers st)"
  using cleanup_loop_peers [of "[]" "peers st" st now 0]
  by (auto simp: cleanupInactivePeers_def split: prod.splits)




lemma filter_peers_all:
  assumes "query_active q \<noteq> JStr ''true''" "\<not> truthy (query_capability q)"
    "\<not> truthy (query_version q)"
  shows "filter_peers q now ps = ps"
  using assms by (simp add: filter_peers_def Let_def)

subsection \<open>Rounding keeps a small bound\<close>



lemma pow2_pos: "0 < pow2 e"
  by (simp add: pow2_def)






subsection \<open>The listing of active peers\<close>


lemma length_sort_lastSeen [simp]: "length (sort_lastSeen xs) = length xs"
  by (simp add: sort_lastSeen_def)

lemma list_peers_eq:
  "list_peers st q now =
     (PeersOk
        (map public (js_slice (sort_lastSeen (filter_peers q now (map snd (peers st))))
                       (parseInt_or (query_offset q) (Fin 0))
                       (num_add (parseInt_or (query_offset q) (Fin 0))
                          (num_min (parseInt_or (query_limit q) (Fin 50)) (Fin 100)))))
        \<lparr>pg_total = length (filter_peers q now (map snd (peers st))),
         pg_limit = num_min (parseInt_or (query_limit q) (Fin 50)) (Fin 100),
         pg_offset = parseInt_or (query_offset q) (Fin 0),
         pg_hasMore = num_less (num_add (parseInt_or (query_offset q) (Fin 0))
                                  (num_min (parseInt_or (query_limit q) (Fin 50)) (Fin 100)))
                        (Fin (of_nat (length (filter_peers q now (map snd (peers st))))))\<rparr>
        \<lparr>flt_activeOnly = (query_active q = JStr ''true''),
         flt_capability = query_capability q, flt_version = query_version q\<rparr>,
      st)"
  by (simp add: list_peers_def Let_def)

lemma list_peers_parts:
  "\<exists>ps pg fl.
     list_peers st q now = (PeersOk ps pg fl, st)
     \<and> ps = map public (js_slice (sort_lastSeen (filter_peers q now (map snd (peers st))))
                          (pg_offset pg) (num_add (pg_offset pg) (pg_limit pg)))
     \<and> pg_total pg = length (filter_peers q now (map snd (peers st)))
     \<and> pg_limit pg = num_min (parseInt_or (query_limit q) (Fin 50)) (Fin 100)
     \<and> pg_offset pg = parseInt_or (query_offset q) (Fin 0)
     \<and> pg_hasMore pg = num_less (num_add (pg_offset pg) (pg_limit pg)) (Fin (of_nat (pg_total pg)))"
  by (simp add: list_peers_eq)




section \<open>Listing: order and pagination\<close>

lemma sort_lastSeen_sorted: "sorted_wrt (\<lambda>a b. lastSeen a \<ge> lastSeen b) (sort_lastSeen xs)"
  using sorted_sort_key [of "\<lambda>p. - lastSeen p" xs]
  by (simp add: sort_lastSeen_def sorted_map)

lemma sort_lastSeen_stable:
  "filter (\<lambda>p. lastSeen p = t) (sort_lastSeen xs) = filter (\<lambda>p. lastSeen p = t) xs"
  using sort_key_stable [of "\<lambda>p. - lastSeen p" "- t" xs]
  by (simp add: sort_lastSeen_def)

lemma sorted_wrt_js_slice: "sorted_wrt P xs \<Longrightarrow> sorted_wrt P (js_slice xs a b)"
  by (simp add: js_slice_def Let_def sorted_wrt_take sorted_wrt_drop)

lemma page_sorted:
  "sorted_wrt (\<lambda>a b. pub_lastSeen a \<ge> pub_lastSeen b)
     (map public (js_slice (sort_lastSeen xs) a b))"
  using sorted_wrt_js_slice [OF sort_lastSeen_sorted, of xs a b]
  by (simp add: sorted_wrt_map public_def)

lemma parseInt_or_undefined: "parseInt_or JUndefined d = d"
  by (simp add: parseInt_or_def js_defs)

lemma parseInt_or_examples:
  "parseInt_or (JStr ''50'') (Fin 50) = Fin 50" "parseInt_or (JStr ''100'') (Fin 0) = Fin 100"
  "parseInt_or (JStr ''0'') (Fin 0) = Fin 0" "parseInt_or (JStr ''-5'') (Fin 50) = Fin (- 5)"
  by (simp_all add: parseInt_or_def js_defs double_defs)

lemma num_add_examples:
  "round_double 150 = Fin 150" "round_double 50 = Fin 50" "round_double (- 5) = Fin (- 5)"
  by (simp_all add: double_defs)

text \<open>
  What holds of every listing.  With \<open>F\<close> the stored records that pass the filters, in
  the insertion order of the map, and \<open>S\<close> the list that is paginated: \<open>S\<close> is in
  descending order of \<open>lastSeen\<close> and keeps records of equal \<open>lastSeen\<close> in their order
  in \<open>F\<close>; the page is the slice of \<open>S\<close> from \<open>offset\<close> to \<open>offset + limit\<close>, itself in
  descending order; \<open>limit\<close> is 50 and \<open>offset\<close> is 0 when the parameter is absent;
  \<open>total\<close> is the length of \<open>F\<close>; \<open>hasMore\<close> is \<open>offset + limit < total\<close>.
\<close>

lemma list_peers_order_and_total:
  "\<exists>ps pg fl.
     list_peers st q now = (PeersOk ps pg fl, st)
     \<and> sorted_wrt (\<lambda>a b. lastSeen a \<ge> lastSeen b)
          (sort_lastSeen (filter_peers q now (map snd (peers st))))
     \<and> (\<forall>t. filter (\<lambda>p. lastSeen p = t) (sort_lastSeen (filter_peers q now (map snd (peers st))))
              = filter (\<lambda>p. lastSeen p = t) (filter_peers q now (map snd (peers st))))
     \<and> ps = map public (js_slice (sort_lastSeen (filter_peers q now (map snd (peers st))))
                          (pg_offset pg) (num_add (pg_offset pg) (pg_limit pg)))
     \<and> sorted_wrt (\<lambda>a b. pub_lastSeen a \<ge> pub_lastSeen b) ps
     \<and> pg_total pg = length (filter_peers q now (map snd (peers st)))
     \<and> (query_limit q = JUndefined \<longrightarrow> pg_limit pg = Fin 50)
     \<and> (query_offset q = JUndefined \<longrightarrow> pg_offset pg = Fin 0)
     \<and> pg_hasMore pg = num_less (num_add (pg_offset pg) (pg_limit pg)) (Fin (of_nat (pg_total pg)))"
proof -
  let ?F = "filter_peers q now (map snd (peers st))"
  let ?S = "sort_lastSeen ?F"
  obtain ps pg fl where r: "list_peers st q now = (PeersOk ps pg fl, st)"
    and ps: "ps = map public (js_slice ?S (pg_offset pg) (num_add (pg_offset pg) (pg_limit pg)))"
    and t: "pg_total pg = length ?F"
    and l: "pg_limit pg = num_min (parseInt_or (query_limit q) (Fin 50)) (Fin 100)"
    and off: "pg_offset pg = parseInt_or (query_offset q) (Fin 0)"
    and h: "pg_hasMore pg = num_less (num_add (pg_offset pg) (pg_limit pg)) (Fin (of_nat (pg_total pg)))"
    using list_peers_parts [of st q now] by blast
  have srt: "sorted_wrt (\<lambda>a b. pub_lastSeen a \<ge> pub_lastSeen b) ps"
    by (simp only: ps page_sorted)
  have dl: "query_limit q = JUndefined \<longrightarrow> pg_limit pg = Fin 50"
    by (simp add: l parseInt_or_undefined num_min_def)
  have d0: "query_offset q = JUndefined \<longrightarrow> pg_offset pg = Fin 0"
    by (simp add: off parseInt_or_undefined)
  show ?thesis
    by (intro exI [of _ ps] exI [of _ pg] exI [of _ fl] conjI allI r sort_lastSeen_sorted
          sort_lastSeen_stable ps srt t dl d0 h)
qed

lemma insort_key_last:
  "\<forall>y \<in> set ys. f y < f a \<Longrightarrow> insort_key f a ys = ys @ [a]"
  by (induction ys) auto

lemma sort_lastSeen_rev:
  "sorted_wrt (\<lambda>a b. lastSeen a < lastSeen b) xs \<Longrightarrow> sort_lastSeen xs = rev xs"
proof (induction xs)
  case Nil
  then show ?case by (simp add: sort_lastSeen_def)
next
  case (Cons a xs)
  then have IH: "sort_key (\<lambda>p. - lastSeen p) xs = rev xs"
    and lt: "\<forall>b \<in> set xs. lastSeen a < lastSeen b"
    by (simp_all add: sort_lastSeen_def)
  have "insort_key (\<lambda>p. - lastSeen p) a (rev xs) = rev xs @ [a]"
    by (rule insort_key_last) (use lt in simp)
  then show ?case
    by (simp add: sort_lastSeen_def IH)
qed

text \<open>The 120 peers are listed in the opposite order of the map.\<close>

lemma many_peers_listing:
  assumes "query_active q \<noteq> JStr ''true''" "\<not> truthy (query_capability q)"
    "\<not> truthy (query_version q)"
  shows "map public (sort_lastSeen (filter_peers q now (map snd (peers many_peers))))
           = map numbered_public (rev [0..<120])"
proof -
  let ?xs = "map (snd \<circ> numbered_peer) [0..<120]"
  have F: "filter_peers q now (map snd (peers many_peers)) = ?xs"
    by (simp add: filter_peers_all [OF assms] many_peers_def init_server_def)
  have "sorted_wrt (\<lambda>a b. a < b) [0..<120::nat]"
    by (rule sorted_wrt_upt)
  then have "sorted_wrt (\<lambda>a b. lastSeen a < lastSeen b) ?xs"
    by (simp add: sorted_wrt_map numbered_peer_def seen_at_def del: upt.simps upt_rec_numeral)
  then have S: "sort_lastSeen ?xs = rev ?xs"
    by (rule sort_lastSeen_rev)
  have "public \<circ> (snd \<circ> numbered_peer) = numbered_public"
    by (rule ext) (simp add: public_def numbered_peer_def seen_at_def numbered_public_def)
  then have "map public (rev ?xs) = map numbered_public (rev [0..<120])"
    by (simp only: rev_map map_map)
  then show ?thesis by (simp only: F S)
qed

lemma many_peers_total:
  assumes "query_active q \<noteq> JStr ''true''" "\<not> truthy (query_capability q)"
    "\<not> truthy (query_version q)"
  shows "length (filter_peers q now (map snd (peers many_peers))) = 120"
  by (simp add: filter_peers_all [OF assms] many_peers_def)

lemma js_slice_map: "js_slice (map f xs) a b = map f (js_slice xs a b)"
  by (simp add: js_slice_def Let_def take_map drop_map)

lemma js_slice_upt_100_150: "js_slice (rev [0..<120]) (Fin 100) (Fin 150) = rev [0..<20]"
  by (simp add: js_slice_def Let_def drop_rev take_upt del: upt.simps upt_rec_numeral)

lemma js_slice_upt_0_50: "js_slice (rev [0..<120]) (Fin 0) (Fin 50) = rev [70..<120]"
  by (simp add: js_slice_def Let_def take_rev drop_upt del: upt.simps upt_rec_numeral)

lemma js_slice_upt_negative: "js_slice (rev [0..<120]) (Fin 0) (Fin (- 5)) = rev [5..<120]"
  by (simp add: js_slice_def Let_def take_rev drop_upt del: upt.simps upt_rec_numeral)

text \<open>
  The two instances of the specification: with 120 peers, \<open>limit=50\<close> and \<open>offset=100\<close>
  give the last 20 records of the listing, those seen least recently, and no more;
  \<open>limit=50\<close> and \<open>offset=0\<close> give the first 50, those seen most recently, and more.
\<close>

lemma many_peers_pages:
  "list_peers many_peers (page_query ''50'' ''100'') 2000 =
     (PeersOk (map numbered_public (rev [0..<20]))
        \<lparr>pg_total = 120, pg_limit = Fin 50, pg_offset = Fin 100, pg_hasMore = False\<rparr>
        \<lparr>flt_activeOnly = False, flt_capability = JUndefined, flt_version = JUndefined\<rparr>,
      many_peers)"
  "list_peers many_peers (page_query ''50'' ''0'') 2000 =
     (PeersOk (map numbered_public (rev [70..<120]))
        \<lparr>pg_total = 120, pg_limit = Fin 50, pg_offset = Fin 0, pg_hasMore = True\<rparr>
        \<lparr>flt_activeOnly = False, flt_capability = JUndefined, flt_version = JUndefined\<rparr>,
      many_peers)"
proof -
  have q: "query_active (page_query l off) \<noteq> JStr ''true''"
    "\<not> truthy (query_capability (page_query l off))"
    "\<not> truthy (query_version (page_query l off))" for l off
    by (simp_all add: page_query_def no_query_def)
  have pq: "query_limit (page_query l off) = JStr l" "query_offset (page_query l off) = JStr off"
    "query_active (page_query l off) = JUndefined" "query_capability (page_query l off) = JUndefined"
    "query_version (page_query l off) = JUndefined" for l off
    by (simp_all add: page_query_def no_query_def)
  show "list_peers many_peers (page_query ''50'' ''100'') 2000 =
     (PeersOk (map numbered_public (rev [0..<20]))
        \<lparr>pg_total = 120, pg_limit = Fin 50, pg_offset = Fin 100, pg_hasMore = False\<rparr>
        \<lparr>flt_activeOnly = False, flt_capability = JUndefined, flt_version = JUndefined\<rparr>,
      many_peers)"
    unfolding list_peers_eq js_slice_map [symmetric] many_peers_listing [OF q] many_peers_total [OF q]
      pq parseInt_or_examples
    by (simp add: num_min_def num_add_examples js_slice_map js_slice_upt_100_150
          del: upt.simps upt_rec_numeral)
  show "list_peers many_peers (page_query ''50'' ''0'') 2000 =
     (PeersOk (map numbered_public (rev [70..<120]))
        \<lparr>pg_total = 120, pg_limit = Fin 50, pg_offset = Fin 0, pg_hasMore = True\<rparr>
        \<lparr>flt_activeOnly = False, flt_capability = JUndefined, flt_version = JUndefined\<rparr>,
      many_peers)"
    unfolding list_peers_eq js_slice_map [symmetric] many_peers_listing [OF q] many_peers_total [OF q]
      pq parseInt_or_examples
    by (simp add: num_min_def num_add_examples js_slice_map js_slice_upt_0_50
          del: upt.simps upt_rec_numeral)
qed

text \<open>
  C3.  The order, the defaults, the total and \<open>hasMore\<close> of a listing are as the claim
  says (\<open>list_peers_order_and_total\<close>, \<open>many_peers_pages\<close>); the cap of the page at 100
  records is not.  With 120 peers, \<open>GET /peers?limit=-5\<close> answers with 115 records,
  the first 115 of the listing (all but the 5 peers seen least recently): \<open>Math.min\<close>
  bounds the limit from above only, and \<open>slice(0, -5)\<close> counts its end from the end of
  the list.
\<close>

theorem negative_limit_exceeds_cap:
  "list_peers many_peers negative_limit_query 2000 =
     (PeersOk (map numbered_public (rev [5..<120]))
        \<lparr>pg_total = 120, pg_limit = Fin (- 5), pg_offset = Fin 0, pg_hasMore = True\<rparr>
        \<lparr>flt_activeOnly = False, flt_capability = JUndefined, flt_version = JUndefined\<rparr>,
      many_peers)
   \<and> length (listed (fst (list_peers many_peers negative_limit_query 2000))) = 115"
proof -
  have q: "query_active negative_limit_query \<noteq> JStr ''true''"
    "\<not> truthy (query_capability negative_limit_query)"
    "\<not> truthy (query_version negative_limit_query)"
    by (simp_all add: negative_limit_query_def no_query_def)
  have pq: "query_limit negative_limit_query = JStr ''-5''"
    "query_offset negative_limit_query = JUndefined"
    "query_active negative_limit_query = JUndefined"
    "query_capability negative_limit_query = JUndefined"
    "query_version negative_limit_query = JUndefined"
    by (simp_all add: negative_limit_query_def no_query_def)
  have r: "list_peers many_peers negative_limit_query 2000 =
     (PeersOk (map numbered_public (rev [5..<120]))
        \<lparr>pg_total = 120, pg_limit = Fin (- 5), pg_offset = Fin 0, pg_hasMore = True\<rparr>
        \<lparr>flt_activeOnly = False, flt_capability = JUndefined, flt_version = JUndefined\<rparr>,
      many_peers)"
    unfolding list_peers_eq js_slice_map [symmetric] many_peers_listing [OF q] many_peers_total [OF q]
      pq parseInt_or_examples parseInt_or_undefined
    by (simp add: num_min_def num_add_examples js_slice_map js_slice_upt_negative
          del: upt.simps upt_rec_numeral)
  show ?thesis
    unfolding r by (simp add: listed_def del: upt.simps upt_rec_numeral)
qed

section \<open>Relay of offers, answers and candidates\<close>

lemmas ws_defs = on_message_def dispatch_def register_channel_def log_template_def
  clients_get_def converts_def on_connection_def on_close_def socket_key_def handlePeerOffer_def
  handlePeerAnswer_def handleIceCandidate_def relay_def ws_send_def peer_list_frame_def
  peer_entry_def json_object_def logger_def Let_def

lemma to_json_plain: "plain_json v \<Longrightarrow> to_json v = v"
  and elements_to_json_plain: "plain_elements xs \<Longrightarrow> elements_to_json xs = xs"
  and properties_to_json_plain: "plain_properties kvs \<Longrightarrow> properties_to_json kvs = kvs"
  by (induction v and xs and kvs rule: to_json_elements_to_json_properties_to_json.induct) auto











section \<open>The register frame\<close>

lemma peers_log_template: "peers (snd (log_template vs e st)) = peers st"
  by (simp add: log_template_def logger_def)

lemma peers_ws_send [simp]: "peers (ws_send h f st) = peers st"
  by (simp add: ws_send_def)

lemma peers_relay: "peers (snd (relay ty key payload data st)) = peers st"
  by (simp add: relay_def log_template_def logger_def split: option.splits)

lemma peers_dispatch: "peers (snd (dispatch ws m st)) = peers st"
  by (cases m)
     (simp_all add: dispatch_def register_channel_def handlePeerOffer_def handlePeerAnswer_def
        handleIceCandidate_def peers_relay log_template_def logger_def Let_def)

lemma peers_on_message: "peers (on_message ws m st) = peers st"
  using peers_dispatch [of ws m st]
  by (cases "dispatch ws m st") (auto simp: on_message_def split: option.splits)

lemma plain_peer_entries:
  assumes "\<forall>p \<in> set ps. plain_json (id_p p) \<and> plain_json (name p) \<and> plain_elements (capabilities p)"
  shows "plain_elements (map peer_entry ps)"
  using assms by (induction ps) (simp_all add: peer_entry_def)

text \<open>
  What holds of a \<open>register\<close> frame whose \<open>peerId\<close> the log line can convert to a string,
  on a channel that is open: the handler appends to what that channel has been sent one
  \<open>peer_list\<close> frame, whose \<open>peers\<close> are the stored records in the order of the map, each
  as an object with exactly the properties \<open>id\<close>, \<open>name\<close>, \<open>capabilities\<close> and
  \<open>lastSeen\<close> of the record, as \<open>JSON.stringify\<close> writes them; no other channel is sent
  anything, and \<open>peers\<close> is the same after as before.
\<close>

lemma register_reply:
  assumes "readyState (sockets st ws) = OPEN"
    and "msg_type data = JStr ''register''"
    and "converts (msg_peerId data)"
  shows "sent (sockets (on_message ws (Parsed data) st) ws)
           = sent (sockets st ws)
             @ [json_object [(''type'', JStr ''peer_list''),
                             (''peers'', JArr (map peer_entry (map snd (peers st))))]]
         \<and> ((\<forall>p \<in> set (map snd (peers st)).
                 plain_json (id_p p) \<and> plain_json (name p) \<and> plain_elements (capabilities p)) \<longrightarrow>
              sent (sockets (on_message ws (Parsed data) st) ws)
                = sent (sockets st ws)
                  @ [JObj [(''type'', JStr ''peer_list''),
                           (''peers'',
                            JArr (map (\<lambda>p. JObj [(''id'', id_p p), (''name'', name p),
                                                   (''capabilities'', JArr (capabilities p)),
                                                   (''lastSeen'', JNum (lastSeen p))])
                                      (map snd (peers st))))]])
         \<and> (\<forall>h. h \<noteq> ws \<longrightarrow> sockets (on_message ws (Parsed data) st) h = sockets st h)
         \<and> peers (on_message ws (Parsed data) st) = peers st"
proof (intro conjI allI impI)
  show s: "sent (sockets (on_message ws (Parsed data) st) ws)
           = sent (sockets st ws)
             @ [json_object [(''type'', JStr ''peer_list''),
                             (''peers'', JArr (map peer_entry (map snd (peers st))))]]"
    using assms
    by (simp add: on_message_def dispatch_def register_channel_def log_template_def Let_def
          ws_send_def logger_def peer_list_frame_def)
  show "sent (sockets (on_message ws (Parsed data) st) ws)
          = sent (sockets st ws)
            @ [JObj [(''type'', JStr ''peer_list''),
                     (''peers'',
                      JArr (map (\<lambda>p. JObj [(''id'', id_p p), (''name'', name p),
                                             (''capabilities'', JArr (capabilities p)),
                                             (''lastSeen'', JNum (lastSeen p))])
                                (map snd (peers st))))]]"
    if "\<forall>p \<in> set (map snd (peers st)).
          plain_json (id_p p) \<and> plain_json (name p) \<and> plain_elements (capabilities p)"
  proof -
    have "plain_json (JObj [(''type'', JStr ''peer_list''),
                            (''peers'', JArr (map peer_entry (map snd (peers st))))])"
      using plain_peer_entries [OF that] by simp
    then have "json_object [(''type'', JStr ''peer_list''),
                            (''peers'', JArr (map peer_entry (map snd (peers st))))]
                 = JObj [(''type'', JStr ''peer_list''),
                         (''peers'', JArr (map peer_entry (map snd (peers st))))]"
      unfolding json_object_def by (rule to_json_plain)
    then show ?thesis
      by (simp add: s peer_entry_def)
  qed
  show "sockets (on_message ws (Parsed data) st) h = sockets st h" if "h \<noteq> ws" for h
    using assms that
    by (simp add: on_message_def dispatch_def register_channel_def log_template_def Let_def
          ws_send_def logger_def)
  show "peers (on_message ws (Parsed data) st) = peers st"
    by (rule peers_on_message)
qed

lemma one_peer_connected_state:
  "peers one_peer_connected = peers one_peer"
  "sockets one_peer_connected 1 = \<lparr>peerId = JNull, peerRef = 0, readyState = OPEN, sent = []\<rparr>"
  "websocketClients one_peer_connected = []"
  "next_ref one_peer_connected = 0"
  unfolding one_peer_connected_def one_peer_def register_def Let_def testPeer_valid testPeer_port
  by (simp_all add: on_connection_def logger_def peer_name_def init_server_def testPeer_def)

text \<open>
  C7.  A \<open>register\<close> frame with a string as \<open>peerId\<close> is answered on the same channel
  with the list of peers, and no \<open>register\<close> frame changes \<open>peers\<close> (\<open>register_reply\<close>).
  The reply is not sent for every \<open>register\<close> frame.  With one peer in the registry and
  channel 1 open, the frame \<open>{"type":"register","peerId":{"toString":1}}\<close> binds the
  channel in \<open>websocketClients\<close> and sets its \<open>peerId\<close>; then the log line fails to
  convert the \<open>peerId\<close> to a string, the \<open>catch\<close> writes its error entry, and the channel
  is sent nothing.  The same channel sending \<open>A\<close> as its \<open>peerId\<close> is sent the list.
\<close>

theorem register_unprintable_no_reply:
  "readyState (sockets one_peer_connected 1) = OPEN
   \<and> sent (sockets (on_message 1 register_unprintable one_peer_connected) 1) = []
   \<and> logged (on_message 1 register_unprintable one_peer_connected)
       = logged one_peer_connected @ [LogMessageError]
   \<and> websocketClients (on_message 1 register_unprintable one_peer_connected)
       = [(ByRef 0 unprintable, 1)]
   \<and> peerId (sockets (on_message 1 register_unprintable one_peer_connected) 1) = unprintable
   \<and> sent (sockets (on_message 1 (register_msg ''A'') one_peer_connected) 1)
       = [JObj [(''type'', JStr ''peer_list''),
                (''peers'',
                 JArr [JObj [(''id'', JStr ''test_peer_1700000000000''), (''name'', JStr ''Test Node''),
                             (''capabilities'', JArr [JStr ''websocket'', JStr ''webrtc'']),
                             (''lastSeen'', JNum 1000)]])]]"
proof -
  note s = one_peer_connected_state
  have u: "is_ref unprintable" "\<not> converts unprintable"
    by (simp_all add: unprintable_def converts_def)
  have a: "readyState (sockets one_peer_connected 1) = OPEN"
    unfolding s by simp
  have d: "dispatch 1 register_unprintable one_peer_connected
             = (Some TypeError,
                one_peer_connected
                  \<lparr>sockets := (sockets one_peer_connected)
                      (1 := (sockets one_peer_connected 1)\<lparr>peerId := unprintable, peerRef := 0\<rparr>),
                   websocketClients := [(ByRef 0 unprintable, 1)],
                   next_ref := 1\<rparr>)"
    unfolding register_unprintable_def dispatch_def register_channel_def log_template_def Let_def s
    by (simp add: no_data_def u)
  have b: "sent (sockets (on_message 1 register_unprintable one_peer_connected) 1) = []"
    and c: "logged (on_message 1 register_unprintable one_peer_connected)
              = logged one_peer_connected @ [LogMessageError]"
    and e: "websocketClients (on_message 1 register_unprintable one_peer_connected)
              = [(ByRef 0 unprintable, 1)]"
    and f: "peerId (sockets (on_message 1 register_unprintable one_peer_connected) 1) = unprintable"
    unfolding on_message_def d s by (simp_all add: logger_def)
  have g: "sent (sockets (on_message 1 (register_msg ''A'') one_peer_connected) 1)
       = [JObj [(''type'', JStr ''peer_list''),
                (''peers'',
                 JArr [JObj [(''id'', JStr ''test_peer_1700000000000''), (''name'', JStr ''Test Node''),
                             (''capabilities'', JArr [JStr ''websocket'', JStr ''webrtc'']),
                             (''lastSeen'', JNum 1000)]])]]"
    unfolding register_msg_def dispatch_def on_message_def register_channel_def log_template_def
      Let_def ws_send_def peer_list_frame_def s
    by (simp add: no_data_def converts_def logger_def peer_entry_def json_object_def s(1)
          one_peer_peers)
  show ?thesis
    by (intro conjI a b c e f g)
qed

section \<open>Responses do not show the requester\<close>

lemma same_public_lookup:
  assumes "same_public s t"
  shows "map_option redact (map_of (peers s) k) = map_option redact (map_of (peers t) k)"
proof -
  have "map_of (map (\<lambda>(k, p). (k, redact p)) (peers s)) k
          = map_of (map (\<lambda>(k, p). (k, redact p)) (peers t)) k"
    using assms by (simp add: same_public_def)
  then show ?thesis by (simp add: map_of_map)
qed

lemma same_public_values:
  assumes "same_public s t"
  shows "map redact (map snd (peers s)) = map redact (map snd (peers t))"
proof -
  have "map snd (map (\<lambda>(k, p). (k, redact p)) xs) = map redact (map snd xs)" for xs :: "(jsval \<times> peer) list"
    by (induction xs) auto
  then show ?thesis using assms by (metis same_public_def)
qed

lemma same_public_keys:
  assumes "same_public s t"
  shows "map fst (peers s) = map fst (peers t)"
proof -
  have "map fst (map (\<lambda>(k, p). (k, redact p)) xs) = map fst xs" for xs :: "(jsval \<times> peer) list"
    by (induction xs) auto
  then show ?thesis using assms by (metis same_public_def)
qed

lemma public_redact [simp]: "public (redact p) = public p"
  by (simp add: public_def redact_def)

lemma is_active_redact [simp]: "is_active now (redact p) = is_active now p"
  by (simp add: is_active_def redact_def)

lemma redact_fields [simp]:
  "lastSeen (redact p) = lastSeen p" "capabilities (redact p) = capabilities p"
  "version (redact p) = version p" "registeredAt (redact p) = registeredAt p"
  "connectionCount (redact p) = connectionCount p" "name (redact p) = name p"
  "id_p (redact p) = id_p p" "updatedAt (redact p) = updatedAt p"
  by (simp_all add: redact_def)

lemma filter_peers_redact: "filter_peers q now (map redact ps) = map redact (filter_peers q now ps)"
  by (simp add: filter_peers_def Let_def filter_map comp_def)

lemma insort_lastSeen_redact:
  "insort_key (\<lambda>p. - lastSeen p) (redact x) (map redact ys)
     = map redact (insort_key (\<lambda>p. - lastSeen p) x ys)"
  by (induction ys) simp_all

lemma sort_lastSeen_redact: "sort_lastSeen (map redact ps) = map redact (sort_lastSeen ps)"
  unfolding sort_lastSeen_def
  by (induction ps) (simp_all add: insort_lastSeen_redact)

lemma page_redact:
  "map public (js_slice (sort_lastSeen (filter_peers q now (map redact ps))) a b)
     = map public (js_slice (sort_lastSeen (filter_peers q now ps)) a b)"
  by (simp add: filter_peers_redact sort_lastSeen_redact js_slice_map comp_def)

lemma total_redact:
  "length (filter_peers q now (map redact ps)) = length (filter_peers q now ps)"
  by (simp add: filter_peers_redact)

lemma list_peers_same:
  assumes "same_public s t"
  shows "fst (list_peers s q now) = fst (list_peers t q now)"
proof -
  note v = same_public_values [OF assms]
  have "map public (js_slice (sort_lastSeen (filter_peers q now (map snd (peers s)))) a b)
          = map public (js_slice (sort_lastSeen (filter_peers q now (map snd (peers t)))) a b)" for a b
    using page_redact [of q now "map snd (peers s)" a b] page_redact [of q now "map snd (peers t)" a b]
    by (simp only: v)
  moreover have "length (filter_peers q now (map snd (peers s)))
                   = length (filter_peers q now (map snd (peers t)))"
    using total_redact [of q now "map snd (peers s)"] total_redact [of q now "map snd (peers t)"]
    by (simp only: v)
  ultimately show ?thesis
    by (simp add: list_peers_eq)
qed

lemma redact_eq_public: "redact a = redact b \<Longrightarrow> public a = public b"
  by (metis public_redact)

lemma get_peer_same:
  assumes "same_public s t"
  shows "fst (get_peer s i) = fst (get_peer t i)"
  using same_public_lookup [OF assms, of "JStr i"]
  by (cases "map_of (peers s) (JStr i)"; cases "map_of (peers t) (JStr i)")
     (auto simp: get_peer_def dest: redact_eq_public)

lemma redact_update:
  "map (\<lambda>(k, p). (k, redact p)) (AList.update i v al)
     = AList.update i (redact v) (map (\<lambda>(k, p). (k, redact p)) al)"
  by (induction al) auto

lemma same_request_fields:
  assumes "same_request r1 r2"
  shows "body_id r1 = body_id r2" "body_ip r1 = body_ip r2" "body_port r1 = body_port r2"
    "body_name r1 = body_name r2" "body_capabilities r1 = body_capabilities r2"
    "body_version r1 = body_version r2"
  using assms unfolding same_request_def
  by (cases r1; cases r2; simp)+

lemma redact_make_peer:
  assumes "same_request r1 r2" "map_option redact e1 = map_option redact e2"
  shows "redact (make_peer r1 pn nm e1 now) = redact (make_peer r2 pn nm e2 now)"
proof (cases e1)
  case None
  then have "e2 = None" using assms(2) by simp
  then show ?thesis
    using None by (simp add: make_peer_def redact_def Let_def same_request_fields [OF assms(1)])
next
  case (Some a)
  then obtain c where e2: "e2 = Some c" and r: "redact a = redact c"
    using assms(2) by (cases e2) auto
  have "registeredAt a = registeredAt c" "connectionCount a = connectionCount c"
    using r by (metis redact_fields(4), metis redact_fields(5))
  then show ?thesis
    using Some e2 by (simp add: make_peer_def redact_def Let_def same_request_fields [OF assms(1)])
qed

lemma length_filter_map: "length (filter P xs) = length (filter (\<lambda>b. b) (map P xs))"
  by (induction xs) auto

lemma register_threw:
  assumes "validatePeerData \<lparr>data_id = body_id req, data_ip = body_ip req, data_port = body_port req\<rparr> = Inl e"
  shows "register st req now = internal_error LogRegistrationError st"
  using assms by (simp add: register_def Let_def)

lemma register_invalid:
  assumes "validatePeerData \<lparr>data_id = body_id req, data_ip = body_ip req, data_port = body_port req\<rparr> = Inr errs"
    and "errs \<noteq> []"
  shows "register st req now = (ValidationFailed errs, st)"
  using assms by (simp add: register_def Let_def)

lemma register_port_threw:
  assumes "validatePeerData \<lparr>data_id = body_id req, data_ip = body_ip req, data_port = body_port req\<rparr> = Inr []"
    and "js_parseInt (body_port req) = Inl e"
  shows "register st req now = internal_error LogRegistrationError st"
  using assms by (simp add: register_def Let_def)

lemma register_name_threw:
  assumes "validatePeerData \<lparr>data_id = body_id req, data_ip = body_ip req, data_port = body_port req\<rparr> = Inr []"
    and "js_parseInt (body_port req) = Inr pn"
    and "peer_name (body_name req) (body_id req) = Inl e"
  shows "register st req now = internal_error LogRegistrationError st"
  using assms by (simp add: register_def Let_def)

lemma register_success:
  assumes "validatePeerData \<lparr>data_id = body_id req, data_ip = body_ip req, data_port = body_port req\<rparr> = Inr []"
    and "js_parseInt (body_port req) = Inr pn"
    and "peer_name (body_name req) (body_id req) = Inr nm"
    and "p = make_peer req pn nm (map_of (peers st) (body_id req)) now"
  shows "fst (register st req now)
           = RegisterOk (map_of (peers st) (body_id req) \<noteq> None)
               \<lparr>reg_id = id_p p, reg_name = name p, reg_version = version p,
                reg_capabilities = capabilities p, reg_registeredAt = registeredAt p,
                reg_updatedAt = updatedAt p\<rparr>
               \<lparr>totalPeers = length (AList.update (body_id req) p (peers st)),
                activePeers = length (filter (is_active now)
                                (map snd (AList.update (body_id req) p (peers st))))\<rparr>"
    and "peers (snd (register st req now)) = AList.update (body_id req) p (peers st)"
  using assms by (simp_all add: register_def Let_def logger_def)

lemma register_same:
  assumes sp: "same_public s t" and sr: "same_request r1 r2"
  shows "fst (register s r1 now) = fst (register t r2 now)"
proof -
  note b = same_request_fields [OF sr]
  let ?i = "body_id r2"
  let ?V = "validatePeerData \<lparr>data_id = ?i, data_ip = body_ip r2, data_port = body_port r2\<rparr>"
  have V1: "validatePeerData \<lparr>data_id = body_id r1, data_ip = body_ip r1, data_port = body_port r1\<rparr> = ?V"
    by (simp add: b)
  have N1: "peer_name (body_name r1) (body_id r1) = peer_name (body_name r2) ?i"
    by (simp add: b)
  note lk = same_public_lookup [OF sp, of ?i]
  have none: "(map_of (peers s) ?i = None) = (map_of (peers t) ?i = None)"
    using lk by (cases "map_of (peers s) ?i"; cases "map_of (peers t) ?i") auto
  show ?thesis
  proof (cases ?V)
    case (Inl e)
    then show ?thesis
      by (simp add: register_threw V1 internal_error_def)
  next
    case (Inr errs)
    show ?thesis
    proof (cases "errs = []")
      case False
      then show ?thesis
        using Inr by (simp add: register_invalid V1)
    next
      case True
      note V = Inr [unfolded True]
      show ?thesis
      proof (cases "js_parseInt (body_port r2)")
        case (Inl e)
        then show ?thesis
          using V register_port_threw [of r1 e s now] register_port_threw [of r2 e t now]
          by (simp add: V1 b internal_error_def)
      next
        case P: (Inr pn)
      show ?thesis
      proof (cases "peer_name (body_name r2) ?i")
        case (Inl e)
        then show ?thesis
          using V P register_name_threw [of r1 pn e s now] register_name_threw [of r2 pn e t now]
          by (simp add: V1 N1 b internal_error_def)
      next
        case (Inr nm)
        let ?p1 = "make_peer r1 pn nm (map_of (peers s) ?i) now"
        let ?p2 = "make_peer r2 pn nm (map_of (peers t) ?i) now"
        have r: "redact ?p1 = redact ?p2"
          by (rule redact_make_peer [OF sr lk])
        let ?s' = "s\<lparr>peers := AList.update ?i ?p1 (peers s)\<rparr>"
        let ?t' = "t\<lparr>peers := AList.update ?i ?p2 (peers t)\<rparr>"
        have sp': "same_public ?s' ?t'"
          using sp by (simp add: same_public_def redact_update r)
        have "length (map fst (peers ?s')) = length (map fst (peers ?t'))"
          by (simp only: same_public_keys [OF sp'])
        then have len: "length (AList.update ?i ?p1 (peers s)) = length (AList.update ?i ?p2 (peers t))"
          by simp
        have "map (is_active now) (map redact (map snd (peers ?s')))
                = map (is_active now) (map redact (map snd (peers ?t')))"
          by (simp only: same_public_values [OF sp'])
        then have "map (is_active now) (map snd (AList.update ?i ?p1 (peers s)))
                     = map (is_active now) (map snd (AList.update ?i ?p2 (peers t)))"
          by (simp add: comp_def)
        then have act: "length (filter (is_active now) (map snd (AList.update ?i ?p1 (peers s))))
                     = length (filter (is_active now) (map snd (AList.update ?i ?p2 (peers t))))"
          by (simp only: length_filter_map [of "is_active now"])
        have f: "id_p ?p1 = id_p ?p2" "name ?p1 = name ?p2" "version ?p1 = version ?p2"
          "capabilities ?p1 = capabilities ?p2" "registeredAt ?p1 = registeredAt ?p2"
          "updatedAt ?p1 = updatedAt ?p2"
          using r by (metis redact_fields(7), metis redact_fields(6), metis redact_fields(3),
              metis redact_fields(2), metis redact_fields(4), metis redact_fields(8))
        have 1: "fst (register s r1 now)
           = RegisterOk (map_of (peers s) ?i \<noteq> None)
               \<lparr>reg_id = id_p ?p1, reg_name = name ?p1, reg_version = version ?p1,
                reg_capabilities = capabilities ?p1, reg_registeredAt = registeredAt ?p1,
                reg_updatedAt = updatedAt ?p1\<rparr>
               \<lparr>totalPeers = length (AList.update ?i ?p1 (peers s)),
                activePeers = length (filter (is_active now)
                                (map snd (AList.update ?i ?p1 (peers s))))\<rparr>"
          by (rule register_success(1) [OF V [folded V1] P [folded b(3)] Inr [folded N1] refl,
                unfolded b(1)])
        have 2: "fst (register t r2 now)
           = RegisterOk (map_of (peers t) ?i \<noteq> None)
               \<lparr>reg_id = id_p ?p2, reg_name = name ?p2, reg_version = version ?p2,
                reg_capabilities = capabilities ?p2, reg_registeredAt = registeredAt ?p2,
                reg_updatedAt = updatedAt ?p2\<rparr>
               \<lparr>totalPeers = length (AList.update ?i ?p2 (peers t)),
                activePeers = length (filter (is_active now)
                                (map snd (AList.update ?i ?p2 (peers t))))\<rparr>"
          by (rule register_success(1) [OF V P Inr refl])
        show ?thesis
          unfolding 1 2 by (simp only: none len act f)
      qed
      qed
    qed
  qed
qed

text \<open>
  C10.  Take two states whose stored records differ at most in \<open>userAgent\<close> and
  \<open>ipAddress\<close>.  Then \<open>POST /register\<close> gives the same response in both, also when the two
  requests differ in the \<open>User-Agent\<close> header and the address of the requester, and so do
  \<open>GET /peers\<close> and \<open>GET /peers/:id\<close>: no response depends on the two fields.
\<close>

theorem responses_hide_requester:
  assumes "same_public s t"
  shows "(\<forall>r1 r2. same_request r1 r2 \<longrightarrow> fst (register s r1 now) = fst (register t r2 now))
       \<and> fst (list_peers s q now) = fst (list_peers t q now)
       \<and> fst (get_peer s i) = fst (get_peer t i)"
  using register_same [OF assms] list_peers_same [OF assms] get_peer_same [OF assms]
  by blast

lemma one_peer_elsewhere_peers:
  "peers one_peer_elsewhere =
     [(JStr ''test_peer_1700000000000'',
       \<lparr>id_p = JStr ''test_peer_1700000000000'', ip = JStr ''192.168.1.100'', port = Fin 4001,
        name = JStr ''Test Node'', version = JStr ''1.0.0'',
        capabilities = [JStr ''websocket'', JStr ''webrtc''], lastSeen = 1000,
        registeredAt = 1000, updatedAt = 1000, connectionCount = 1, userAgent = ''Mozilla/5.0'',
        ipAddress = ''10.0.0.7''\<rparr>)]"
proof -
  have v: "validatePeerData
             \<lparr>data_id = body_id (testPeer\<lparr>header_userAgent := Some ''Mozilla/5.0'', req_ip := ''10.0.0.7''\<rparr>),
              data_ip = body_ip (testPeer\<lparr>header_userAgent := Some ''Mozilla/5.0'', req_ip := ''10.0.0.7''\<rparr>),
              data_port = body_port (testPeer\<lparr>header_userAgent := Some ''Mozilla/5.0'', req_ip := ''10.0.0.7''\<rparr>)\<rparr>
           = Inr []"
    using testPeer_valid by simp
  have p: "js_parseInt (body_port (testPeer\<lparr>header_userAgent := Some ''Mozilla/5.0'', req_ip := ''10.0.0.7''\<rparr>))
             = Inr (Fin 4001)"
    using testPeer_port by simp
  show ?thesis
    unfolding one_peer_elsewhere_def register_def Let_def v p
    by (simp add: testPeer_def handler_defs)
qed

theorem responses_hide_requester_witness:
  "same_public one_peer one_peer_elsewhere
   \<and> peers one_peer \<noteq> peers one_peer_elsewhere
   \<and> same_request testPeer (testPeer\<lparr>header_userAgent := None, req_ip := ''::1''\<rparr>)
   \<and> fst (register one_peer testPeer 2000)
       = fst (register one_peer_elsewhere (testPeer\<lparr>header_userAgent := None, req_ip := ''::1''\<rparr>) 2000)
   \<and> fst (list_peers one_peer no_query 2000) = fst (list_peers one_peer_elsewhere no_query 2000)
   \<and> fst (get_peer one_peer ''test_peer_1700000000000'')
       = fst (get_peer one_peer_elsewhere ''test_peer_1700000000000'')"
proof -
  have a: "same_public one_peer one_peer_elsewhere"
    by (simp add: same_public_def one_peer_peers one_peer_elsewhere_peers redact_def)
  have b: "peers one_peer \<noteq> peers one_peer_elsewhere"
    by (simp add: one_peer_peers one_peer_elsewhere_peers)
  have c: "same_request testPeer (testPeer\<lparr>header_userAgent := None, req_ip := ''::1''\<rparr>)"
    by (simp add: same_request_def)
  show ?thesis
    using a b c
      responses_hide_requester [OF a, of 2000 no_query "''test_peer_1700000000000''"]
    by blast
qed

section \<open>Validation\<close>





lemma check_id_ok: "(check_id d = []) = id_ok (data_id d)"
  by (cases "data_id d") (auto simp: check_id_def id_ok_def typeof_string_def str_length_def)


text \<open>
  C4.  The registration \<open>{id: "short", ip: 12345, port: 0}\<close> violates all three
  constraints.  Validation of it throws, at \<open>data.ip.includes\<close>, and the handler
  answers with the internal error, which carries no list of violations; the same
  registration with the ip as the string \<open>"12345"\<close> is answered with the three
  violations.
\<close>

theorem validation_throws_on_numeric_ip:
  "\<not> id_ok (body_id numeric_ip_request) \<and> \<not> ip_ok (body_ip numeric_ip_request)
   \<and> \<not> port_ok (body_port numeric_ip_request)
   \<and> validatePeerData \<lparr>data_id = body_id numeric_ip_request, data_ip = body_ip numeric_ip_request,
                         data_port = body_port numeric_ip_request\<rparr> = Inl TypeError
   \<and> register init_server numeric_ip_request 1000
       = (InternalServerError, init_server\<lparr>errors := 1, logged := [LogRegistrationError]\<rparr>)
   \<and> register init_server bad_request 1000
       = (ValidationFailed [''Invalid peer ID'', ''Invalid port number'', ''Invalid IP address format''],
          init_server)"
proof -
  have v: "validatePeerData \<lparr>data_id = body_id numeric_ip_request, data_ip = body_ip numeric_ip_request,
                         data_port = body_port numeric_ip_request\<rparr> = Inl TypeError"
    by (simp add: numeric_ip_request_def js_defs validate_defs)
  have w: "validatePeerData \<lparr>data_id = body_id bad_request, data_ip = body_ip bad_request,
                         data_port = body_port bad_request\<rparr>
             = Inr [''Invalid peer ID'', ''Invalid port number'', ''Invalid IP address format'']"
    by (simp add: bad_request_def numeric_ip_request_def js_defs validate_defs)
  have c: "\<not> id_ok (body_id numeric_ip_request)" "\<not> ip_ok (body_ip numeric_ip_request)"
    "\<not> port_ok (body_port numeric_ip_request)"
    by (simp_all add: numeric_ip_request_def id_ok_def ip_ok_def port_ok_def)
  have r1: "register init_server numeric_ip_request 1000
       = (InternalServerError, init_server\<lparr>errors := 1, logged := [LogRegistrationError]\<rparr>)"
    unfolding register_def Let_def v
    by (simp add: internal_error_def logger_def init_server_def)
  have r2: "register init_server bad_request 1000
       = (ValidationFailed [''Invalid peer ID'', ''Invalid port number'', ''Invalid IP address format''],
          init_server)"
    unfolding register_def Let_def w by simp
  show ?thesis
    by (intro conjI c v r1 r2)
qed

section \<open>Channels and peer ids\<close>

text \<open>
  C6.  A channel that sends \<open>register\<close> with the id \<open>A\<close> and then with the id \<open>B\<close> is
  bound to both ids in \<open>websocketClients\<close>; when it closes, only the entry of \<open>B\<close> is
  deleted, and \<open>A\<close> stays bound to the closed channel.
\<close>

theorem channel_bound_to_two_ids:
  "bound_ids registered_twice 1 = [JStr ''A'', JStr ''B'']
   \<and> peerId (sockets registered_twice 1) = JStr ''B''
   \<and> bound_ids (on_close 1 registered_twice) 1 = [JStr ''A'']
   \<and> readyState (sockets (on_close 1 registered_twice) 1) = CLOSED"
  by (simp add: registered_twice_def register_msg_def no_data_def init_server_def bound_ids_def
        ws_defs AList.delete_eq)

section \<open>The two maps in every state of the process\<close>

lemma set_update_subset: "set (AList.update k v al) \<subseteq> insert (k, v) (set al)"
  by (induction al) auto

lemma set_delete_subset: "set (AList.delete k al) \<subseteq> set al"
  by (auto simp: AList.delete_eq)

lemma validate_ok_id:
  assumes "validatePeerData d = Inr []"
  shows "id_ok (data_id d)"
  using assms check_id_ok [of d]
  by (auto simp: validatePeerData_def split: sum.splits)

lemma peer_name_truthy: "peer_name nm i = Inr n \<Longrightarrow> truthy n"
  by (auto simp: peer_name_def split: if_splits jsval.splits)

text \<open>The handlers of the registry leave the relay as it is.\<close>

lemma register_relay:
  "websocketClients (snd (register st req now)) = websocketClients st"
  "next_ref (snd (register st req now)) = next_ref st"
  "exited (snd (register st req now)) = exited st"
  by (simp_all add: register_def Let_def internal_error_def logger_def split: sum.splits)

lemma cleanup_loop_relay:
  "websocketClients (fst (cleanup_loop now es (st, n))) = websocketClients st"
  "next_ref (fst (cleanup_loop now es (st, n))) = next_ref st"
  "exited (fst (cleanup_loop now es (st, n))) = exited st"
  by (induction now es "(st, n)" arbitrary: st n rule: cleanup_loop.induct;
      simp add: logger_def)+

lemma cleanup_relay:
  "websocketClients (cleanupInactivePeers st now) = websocketClients st"
  "next_ref (cleanupInactivePeers st now) = next_ref st"
  "exited (cleanupInactivePeers st now) = exited st"
  using cleanup_loop_relay [of now "peers st" st 0]
  by (auto simp: cleanupInactivePeers_def logger_def split: prod.splits)

lemma maps_ok_parts: "maps_ok st = (peers_ok st \<and> clients_ok st)"
  by (auto simp: maps_ok_def peers_ok_def clients_ok_def)

lemma maps_ok_init: "maps_ok init_server"
  by (simp add: maps_ok_def init_server_def)

lemma clients_ok_cong:
  assumes "clients_ok st" "websocketClients st' = websocketClients st" "next_ref st' = next_ref st"
  shows "clients_ok st'"
  using assms by (simp add: clients_ok_def)

lemma peers_ok_cong:
  assumes "peers_ok st" "peers st' = peers st"
  shows "peers_ok st'"
  using assms by (simp add: peers_ok_def)

lemma peers_ok_register:
  assumes "peers_ok st"
  shows "peers_ok (snd (register st req now))"
proof -
  let ?V = "validatePeerData \<lparr>data_id = body_id req, data_ip = body_ip req, data_port = body_port req\<rparr>"
  show ?thesis
  proof (cases ?V)
    case (Inl e)
    then show ?thesis
      using assms by (simp add: register_threw internal_error_def logger_def peers_ok_def)
  next
    case (Inr errs)
    show ?thesis
    proof (cases "errs = []")
      case False
      then show ?thesis
        using assms Inr by (simp add: register_invalid)
    next
      case True
      note V = Inr [unfolded True]
      show ?thesis
      proof (cases "js_parseInt (body_port req)")
        case (Inl e)
        then show ?thesis
          using assms V by (simp add: register_port_threw internal_error_def logger_def peers_ok_def)
      next
        case P: (Inr pn)
        show ?thesis
        proof (cases "peer_name (body_name req) (body_id req)")
          case (Inl e)
          then show ?thesis
            using assms register_name_threw [OF V P Inl, of st now]
            by (simp add: internal_error_def logger_def peers_ok_def)
        next
          case (Inr nm)
          let ?p = "make_peer req pn nm (map_of (peers st) (body_id req)) now"
          have p: "peers (snd (register st req now)) = AList.update (body_id req) ?p (peers st)"
            by (rule register_success(2) [OF V P Inr refl])
          have new: "id_p ?p = body_id req" "id_ok (body_id req)" "truthy (name ?p)"
            using validate_ok_id [OF V] peer_name_truthy [OF Inr]
            by (simp_all add: make_peer_def Let_def)
          have "distinct (map fst (AList.update (body_id req) ?p (peers st)))"
            using assms by (simp add: peers_ok_def distinct_update)
          moreover have "\<forall>kp \<in> set (AList.update (body_id req) ?p (peers st)).
                           id_p (snd kp) = fst kp \<and> id_ok (fst kp) \<and> truthy (name (snd kp))"
            using assms new set_update_subset [of "body_id req" ?p "peers st"]
            by (auto simp: peers_ok_def)
          ultimately show ?thesis
            by (simp add: peers_ok_def p)
        qed
      qed
    qed
  qed
qed

lemma maps_ok_register:
  assumes "maps_ok st"
  shows "maps_ok (snd (register st req now))"
  using assms peers_ok_register [of st req now]
    clients_ok_cong [OF _ register_relay(1,2), of st req now]
  by (simp add: maps_ok_parts)

lemma maps_ok_heartbeat:
  assumes "maps_ok st"
  shows "maps_ok (snd (heartbeat st i now))"
proof (cases "map_of (peers st) (JStr i)")
  case None
  then show ?thesis using assms by (simp add: heartbeat_def)
next
  case (Some p)
  then have m: "(JStr i, p) \<in> set (peers st)"
    by (rule map_of_SomeD)
  have "\<forall>kp \<in> set (AList.update (JStr i) (p\<lparr>lastSeen := now\<rparr>) (peers st)).
          id_p (snd kp) = fst kp \<and> id_ok (fst kp) \<and> truthy (name (snd kp))"
    using assms m set_update_subset [of "JStr i" "p\<lparr>lastSeen := now\<rparr>" "peers st"]
    by (fastforce simp: maps_ok_def)
  then show ?thesis
    using assms Some by (simp add: heartbeat_def Let_def maps_ok_def distinct_update)
qed

lemma maps_ok_delete:
  assumes "maps_ok st"
  shows "maps_ok (snd (delete_peer st i))"
  using assms set_delete_subset [of "JStr i" "peers st"]
  by (auto simp: delete_peer_def maps_ok_def logger_def distinct_delete split: option.splits)

lemma maps_ok_cleanup:
  assumes "maps_ok st"
  shows "maps_ok (cleanupInactivePeers st now)"
proof -
  from assms have d: "distinct (map fst (peers st))"
    by (simp add: maps_ok_def)
  have "peers_ok (cleanupInactivePeers st now)"
    using assms by (auto simp: maps_ok_parts peers_ok_def cleanup_peers [OF d] distinct_map_filter)
  moreover have "clients_ok (cleanupInactivePeers st now)"
    using assms clients_ok_cong [OF _ cleanup_relay(1,2), of st now] by (simp add: maps_ok_parts)
  ultimately show ?thesis by (simp add: maps_ok_parts)
qed

lemma clients_ok_register_channel:
  assumes "clients_ok st"
  shows "clients_ok (snd (register_channel ws data st))"
proof -
  let ?v = "msg_peerId data"
  let ?k = "if is_ref ?v then ByRef (next_ref st) ?v else ByValue (plus_zero ?v)"
  have c: "websocketClients (snd (register_channel ws data st))
             = AList.update ?k ws (websocketClients st)"
    and n: "next_ref (snd (register_channel ws data st))
             = (if is_ref ?v then Suc (next_ref st) else next_ref st)"
    by (simp_all add: register_channel_def log_template_def Let_def ws_send_def logger_def)
  have "older_than (if is_ref ?v then Suc (next_ref st) else next_ref st) (fst kh)"
    if "kh \<in> set (AList.update ?k ws (websocketClients st))" for kh
  proof -
    have w: "older_than (next_ref st) k \<Longrightarrow> older_than (Suc (next_ref st)) k" for k
      by (cases k) simp_all
    from that set_update_subset [of ?k ws "websocketClients st"]
    have "kh = (?k, ws) \<or> kh \<in> set (websocketClients st)" by auto
    then show ?thesis
      using assms w by (auto simp: clients_ok_def)
  qed
  then show ?thesis
    using assms by (simp add: clients_ok_def c n distinct_update)
qed

lemma clients_ok_relay:
  assumes "clients_ok st"
  shows "clients_ok (snd (relay ty key payload data st))"
  using assms
  by (auto simp: clients_ok_def relay_def log_template_def ws_send_def logger_def
        split: option.splits)

lemma clients_ok_dispatch:
  assumes "clients_ok st"
  shows "clients_ok (snd (dispatch ws m st))"
proof (cases m)
  case Malformed
  then show ?thesis using assms by (simp add: dispatch_def)
next
  case (Parsed data)
  show ?thesis
    using assms clients_ok_register_channel [OF assms, of ws data]
      clients_ok_relay [OF assms]
    by (simp add: Parsed dispatch_def handlePeerOffer_def handlePeerAnswer_def
          handleIceCandidate_def)
       (simp add: clients_ok_def ws_send_def logger_def)
qed

lemma clients_ok_logger [simp]: "clients_ok (logger e st) = clients_ok st"
  by (simp add: clients_ok_def logger_def)

lemma maps_ok_on_message:
  assumes "maps_ok st"
  shows "maps_ok (on_message ws m st)"
proof -
  have "clients_ok (on_message ws m st)"
    using assms clients_ok_dispatch [of st ws m]
    by (cases "dispatch ws m st") (auto simp: maps_ok_parts on_message_def split: option.splits)
  moreover have "peers_ok (on_message ws m st)"
    using assms peers_ok_cong [OF _ peers_on_message] by (simp add: maps_ok_parts)
  ultimately show ?thesis by (simp add: maps_ok_parts)
qed

lemma maps_ok_on_close:
  assumes "maps_ok st"
  shows "maps_ok (on_close ws st)"
  using assms set_delete_subset [of "socket_key (sockets st ws)" "websocketClients st"]
  by (auto simp: maps_ok_def on_close_def Let_def logger_def log_template_def distinct_delete)

lemma reachable_maps_ok: "reachable st \<Longrightarrow> maps_ok st"
proof (induction rule: reachable.induct)
  case start
  show ?case by (rule maps_ok_init)
next
  case (get_list st q now)
  then show ?case by (simp add: list_peers_def Let_def)
next
  case (get_one st i)
  then show ?case by (simp add: get_peer_def split: option.splits)
next
  case (connection st ws)
  then show ?case by (simp add: maps_ok_def on_connection_def logger_def)
next
  case (error st ws)
  then show ?case by (simp add: maps_ok_def on_error_def logger_def)
qed (simp_all add: maps_ok_register maps_ok_heartbeat maps_ok_delete maps_ok_cleanup
      maps_ok_on_message maps_ok_on_close)

text \<open>
  So the hypothesis of the statement on the sweep holds in every state of the process,
  and every stored record has an id and a name: \<open>JSON.stringify\<close> leaves out no property
  of an entry of the \<open>peer_list\<close> frame.
\<close>

lemma reachable_distinct: "reachable st \<Longrightarrow> distinct (map fst (peers st))"
  using reachable_maps_ok by (simp add: maps_ok_def)

lemma reachable_defined:
  assumes "reachable st"
  shows "\<forall>p \<in> set (map snd (peers st)). id_p p \<noteq> JUndefined \<and> name p \<noteq> JUndefined"
proof -
  have "id_p (snd kp) \<noteq> JUndefined \<and> name (snd kp) \<noteq> JUndefined" if "kp \<in> set (peers st)" for kp
  proof -
    from reachable_maps_ok [OF assms] that
    have "id_p (snd kp) = fst kp" "id_ok (fst kp)" "truthy (name (snd kp))"
      by (auto simp: maps_ok_def)
    then show ?thesis
      by (auto simp: id_ok_def)
  qed
  then show ?thesis by auto
qed

lemma to_json_defined: "v \<noteq> JUndefined \<Longrightarrow> to_json v \<noteq> JUndefined"
  by (cases v) simp_all

lemma peer_entry_json:
  assumes "id_p p \<noteq> JUndefined" "name p \<noteq> JUndefined"
  shows "to_json (peer_entry p)
           = JObj [(''id'', to_json (id_p p)), (''name'', to_json (name p)),
                   (''capabilities'', JArr (elements_to_json (capabilities p))),
                   (''lastSeen'', JNum (lastSeen p))]"
  using assms by (simp add: peer_entry_def)

section \<open>Requests that arrive together\<close>
























end
